theory Spec2Isabelle
  imports Main "HOL-Library.AList"
begin

section \<open>What the plugin takes from outside\<close>

text \<open>
  A Go \<open>string\<close> is a sequence of bytes and \<open>len\<close> counts bytes, so a string is a
  \<open>char list\<close> here and \<open>length\<close> is Go's \<open>len\<close>.

  Modelled from the spec: the backend's \<open>model.Instance\<close> and \<open>model.ConfigFile\<close> are
  interfaces of the Polaris SDK; the plugin calls \<open>IsHealthy()\<close> on the one and
  \<open>GetContent()\<close> on the other. A nil interface value is \<open>None\<close>.
\<close>

record Instance =
  instance_id :: string
  IsHealthy :: bool

record ConfigFile =
  GetContent :: string

text \<open>
  A value of type \<open>interface{}\<close>, as the plugin stores it in a validation error, passes it
  to a logger or hands it to another function. \<open>VMap\<close> is a \<open>map[string]interface{}\<close>,
  \<open>VErr\<close> a non-nil \<open>error\<close> with its text.
\<close>

datatype go_value =
    VNil
  | VString string
  | VInt int
  | VDuration int
  | VBool bool
  | VErr string
  | VInstances "Instance option list"
  | VConfig "ConfigFile option"
  | VMap "(string \<times> go_value) list"

text \<open>
  The plugin reads the process environment (\<open>os.Getenv\<close>), the clock
  (\<open>time.Now().Unix()\<close>) and the Lynx application (\<open>lynx.Lynx()\<close>, nil or not,
  \<open>lynx.GetName()\<close>, and whether \<open>SetControlPlane\<close> fails), and it calls library routines
  whose results rest on tables outside the repository: the Unicode paths of
  \<open>strings.ToLower\<close> and \<open>strings.TrimSpace\<close>, the verbs \<open>%v\<close> and \<open>%T\<close> of package fmt. All
  these are inputs: one record holds them, and every theorem below holds for every such
  record.
\<close>

record runtime =
  getenv :: "string \<Rightarrow> string"
  unicode_ToLower :: "string \<Rightarrow> string"
  unicode_TrimSpace :: "string \<Rightarrow> string"
  fmt_v :: "go_value \<Rightarrow> string"
  now_unix :: int
  lynx_app :: bool
  lynx_name :: string
  SetControlPlane_error :: "string option"
  sdk_type_name :: string

text \<open>
  Modelled from the spec: the constants of package \<open>conf\<close> (the bounds of weight, TTL,
  retry times, timeout and shutdown timeout, and the default shutdown timeout) are
  declared in a file that is not among the sources. The spec only says that each option
  has a bounded range, so the bounds are parameters.
\<close>

record conf_constants =
  MinWeight :: int
  MaxWeight :: int
  MinTTL :: int
  MaxTTL :: int
  MinRetryTimes :: int
  MaxRetryTimes :: int
  MinTimeoutSeconds :: int
  MaxTimeoutSeconds :: int
  MinShutdownTimeout :: int
  MaxShutdownTimeout :: int
  DefaultShutdownTimeout :: int

text \<open>
  Modelled from the spec: the configuration message \<open>conf.Polaris\<close>. The two duration
  fields are pointers to a protobuf duration; a field holds \<open>None\<close> for a nil pointer and
  otherwise the value of \<open>AsDuration()\<close>, in nanoseconds.
\<close>

record Polaris =
  Namespace :: string
  Token :: string
  Weight :: int
  Ttl :: int
  MaxRetryTimesCfg :: int
  Timeout :: "int option"
  ShutdownTimeout :: "int option"

section \<open>Bytes, strings and numbers as Go has them\<close>

definition byte :: "char \<Rightarrow> nat" where
  "byte c = of_char c"

definition is_lower_letter :: "char \<Rightarrow> bool" where
  "is_lower_letter c \<longleftrightarrow> 97 \<le> byte c \<and> byte c \<le> 122"

definition is_upper_letter :: "char \<Rightarrow> bool" where
  "is_upper_letter c \<longleftrightarrow> 65 \<le> byte c \<and> byte c \<le> 90"

definition is_digit :: "char \<Rightarrow> bool" where
  "is_digit c \<longleftrightarrow> 48 \<le> byte c \<and> byte c \<le> 57"

definition is_ascii :: "char \<Rightarrow> bool" where
  "is_ascii c \<longleftrightarrow> byte c < 128"

text \<open>The character class \<open>[a-zA-Z0-9_-]\<close> of the namespace pattern.\<close>

definition is_namespace_char :: "char \<Rightarrow> bool" where
  "is_namespace_char c \<longleftrightarrow>
     is_lower_letter c \<or> is_upper_letter c \<or> is_digit c \<or> byte c = 95 \<or> byte c = 45"

text \<open>
  \<open>regexp.MustCompile(`^[a-zA-Z0-9_-]+$`).MatchString\<close>: without the multi-line flag the
  anchors are the two ends of the text, and a byte outside ASCII never decodes to a rune
  of the class, so the pattern matches exactly the non-empty strings of class bytes.
\<close>

definition namespaceRegex_MatchString :: "string \<Rightarrow> bool" where
  "namespaceRegex_MatchString s \<longleftrightarrow> s \<noteq> [] \<and> list_all is_namespace_char s"

definition ascii_lower :: "char \<Rightarrow> char" where
  "ascii_lower c = (if is_upper_letter c then char_of (byte c + 32) else c)"

text \<open>
  \<open>strings.ToLower\<close>: on a string of ASCII bytes only it adds 32 to each upper-case
  letter; any other string goes through the Unicode tables, which the runtime supplies.
\<close>

definition ToLower :: "runtime \<Rightarrow> string \<Rightarrow> string" where
  "ToLower R s = (if list_all is_ascii s then map ascii_lower s else unicode_ToLower R s)"

definition is_ascii_space :: "char \<Rightarrow> bool" where
  "is_ascii_space c \<longleftrightarrow> byte c = 9 \<or> byte c = 10 \<or> byte c = 11 \<or> byte c = 12 \<or> byte c = 13 \<or> byte c = 32"

text \<open>\<open>strings.TrimSpace\<close>, with the same division of labour.\<close>

definition TrimSpace :: "runtime \<Rightarrow> string \<Rightarrow> string" where
  "TrimSpace R s =
     (if list_all is_ascii s
      then rev (dropWhile is_ascii_space (rev (dropWhile is_ascii_space s)))
      else unicode_TrimSpace R s)"

text \<open>\<open>strings.Split(s, sep)\<close> for a separator of one byte: one piece more than separators.\<close>

fun Split :: "string \<Rightarrow> char \<Rightarrow> string list" where
  "Split [] sep = [[]]"
| "Split (c # cs) sep =
     (if c = sep then [] # Split cs sep
      else (case Split cs sep of [] \<Rightarrow> [[c]] | w # ws \<Rightarrow> (c # w) # ws))"

text \<open>\<open>strings.Contains(s, sub)\<close>: \<open>sub\<close> occurs in \<open>s\<close> as a run of consecutive bytes.\<close>

fun Contains :: "string \<Rightarrow> string \<Rightarrow> bool" where
  "Contains [] sub = (sub = [])"
| "Contains (c # cs) sub = (take (length sub) (c # cs) = sub \<or> Contains cs sub)"

text \<open>\<open>strings.Join\<close>.\<close>

fun Join :: "string list \<Rightarrow> string \<Rightarrow> string" where
  "Join [] sep = []"
| "Join [x] sep = x"
| "Join (x # y # ys) sep = x @ sep @ Join (y # ys) sep"

text \<open>The verb \<open>%d\<close> of package fmt.\<close>

function decimal :: "nat \<Rightarrow> string" where
  "decimal n =
     (if n < 10 then [char_of (48 + n)] else decimal (n div 10) @ [char_of (48 + n mod 10)])"
  by pat_completeness auto
termination
  by (relation "measure id") auto

declare decimal.simps [simp del]

definition fmt_d :: "int \<Rightarrow> string" where
  "fmt_d i = (if i < 0 then CHR ''-'' # decimal (nat (- i)) else decimal (nat i))"

text \<open>
  \<open>time.Duration\<close> is a signed 64-bit count of nanoseconds; a product of two durations
  wraps around.
\<close>

definition wrap64 :: "int \<Rightarrow> int" where
  "wrap64 x = (x + 2 ^ 63) mod 2 ^ 64 - 2 ^ 63"

definition Second :: int where
  "Second = 1000000000"

definition duration_mul :: "int \<Rightarrow> int \<Rightarrow> int" where
  "duration_mul a b = wrap64 (a * b)"

section \<open>Configuration validation\<close>

record ValidationError =
  Field :: string
  Message :: string
  Value :: go_value

definition ValidationError_Error :: "runtime \<Rightarrow> ValidationError \<Rightarrow> string" where
  "ValidationError_Error R e =
     ''validation error for field '' @ [CHR 0x27] @ Field e @ [CHR 0x27] @ '': '' @ Message e
       @ '' (value: '' @ fmt_v R (Value e) @ '')''"

record ValidationResult =
  IsValid :: bool
  Errors :: "ValidationError list"

definition NewValidationResult :: ValidationResult where
  "NewValidationResult = \<lparr>IsValid = True, Errors = []\<rparr>"

definition AddError :: "ValidationResult \<Rightarrow> string \<Rightarrow> string \<Rightarrow> go_value \<Rightarrow> ValidationResult" where
  "AddError r field message v =
     r\<lparr>IsValid := False,
       Errors := Errors r @ [\<lparr>Field = field, Message = message, Value = v\<rparr>]\<rparr>"

definition ValidationResult_Error :: "runtime \<Rightarrow> ValidationResult \<Rightarrow> string" where
  "ValidationResult_Error R r =
     (if IsValid r then [] else Join (map (ValidationError_Error R) (Errors r)) ''; '')"

record Validator =
  config :: "Polaris option"

definition NewValidator :: "Polaris option \<Rightarrow> Validator" where
  "NewValidator c = \<lparr>config = c\<rparr>"

definition REDACTED :: go_value where
  "REDACTED = VString ''[REDACTED]''"

definition validateBasicFields :: "Polaris \<Rightarrow> ValidationResult \<Rightarrow> ValidationResult" where
  "validateBasicFields c result =
     (let r1 =
        (if Namespace c = [] then
           AddError result ''namespace'' ''namespace cannot be empty'' (VString (Namespace c))
         else if length (Namespace c) > 64 then
           AddError result ''namespace'' ''namespace length must not exceed 64 characters''
             (VString (Namespace c))
         else if \<not> namespaceRegex_MatchString (Namespace c) then
           AddError result ''namespace''
             ''namespace can only contain letters, numbers, underscores, and hyphens''
             (VString (Namespace c))
         else result);
          r2 =
        (if Token c \<noteq> [] \<and> length (Token c) > 1024 then
           AddError r1 ''token'' ''token length must not exceed 1024 characters'' REDACTED
         else r1)
      in if Token c \<noteq> [] \<and> length (Token c) < 8 then
           AddError r2 ''token'' ''token must be at least 8 characters long'' REDACTED
         else r2)"

definition validateNumericRanges ::
  "conf_constants \<Rightarrow> Polaris \<Rightarrow> ValidationResult \<Rightarrow> ValidationResult" where
  "validateNumericRanges K c result =
     (let r1 =
        (if Weight c < MinWeight K \<or> Weight c > MaxWeight K then
           AddError result ''weight''
             (''weight must be between '' @ fmt_d (MinWeight K) @ '' and '' @ fmt_d (MaxWeight K))
             (VInt (Weight c))
         else result);
          r2 =
        (if Ttl c < MinTTL K \<or> Ttl c > MaxTTL K then
           AddError r1 ''ttl''
             (''ttl must be between '' @ fmt_d (MinTTL K) @ '' and '' @ fmt_d (MaxTTL K)
                @ '' seconds'')
             (VInt (Ttl c))
         else r1)
      in if MaxRetryTimesCfg c < MinRetryTimes K \<or> MaxRetryTimesCfg c > MaxRetryTimes K then
           AddError r2 ''max_retry_times''
             (''max_retry_times must be between '' @ fmt_d (MinRetryTimes K) @ '' and ''
                @ fmt_d (MaxRetryTimes K))
             (VInt (MaxRetryTimesCfg c))
         else r2)"

definition validateEnumValues :: "ValidationResult \<Rightarrow> ValidationResult" where
  "validateEnumValues result = result"

definition validateTimeConfigs ::
  "conf_constants \<Rightarrow> Polaris \<Rightarrow> ValidationResult \<Rightarrow> ValidationResult" where
  "validateTimeConfigs K c result =
     (case Timeout c of
        None \<Rightarrow> result
      | Some timeout \<Rightarrow>
          (let minTimeout = duration_mul (MinTimeoutSeconds K) Second;
               maxTimeout = duration_mul (MaxTimeoutSeconds K) Second
           in if timeout < minTimeout \<or> timeout > maxTimeout then
                AddError result ''timeout''
                  (''timeout must be between '' @ fmt_d (MinTimeoutSeconds K) @ '' and ''
                     @ fmt_d (MaxTimeoutSeconds K) @ '' seconds'')
                  (VDuration timeout)
              else result))"

definition validateDependencies :: "Polaris \<Rightarrow> ValidationResult \<Rightarrow> ValidationResult" where
  "validateDependencies c result =
     (case Timeout c of
        None \<Rightarrow> result
      | Some timeout \<Rightarrow>
          (if Ttl c > 0 then
             (let ttlDuration = duration_mul (Ttl c) Second
              in if timeout \<ge> ttlDuration then
                   AddError result ''timeout''
                     ''timeout should be less than TTL for proper service registration''
                     (VDuration timeout)
                 else result)
           else result))"

definition defaultNamespaceSensitiveWords :: "string list" where
  "defaultNamespaceSensitiveWords = [''admin'', ''root'', ''system'', ''internal'']"

text \<open>
  The token loop of \<open>validateSecurityConfigs\<close> ranges over runes and compares each with
  ASCII letters and digits; a rune is an ASCII letter or digit exactly when it was
  decoded from that single byte, so the flags are those of the bytes.
\<close>

definition tokenLacksLetterOrDigit :: "string \<Rightarrow> bool" where
  "tokenLacksLetterOrDigit t \<longleftrightarrow>
     (let hasLetter = list_ex (\<lambda>ch. is_lower_letter ch \<or> is_upper_letter ch) t;
          hasDigit = list_ex is_digit t
      in \<not> hasLetter \<or> \<not> hasDigit)"

text \<open>The list of sensitive words, after the override of the environment.\<close>

definition sensitiveWords :: "runtime \<Rightarrow> string list" where
  "sensitiveWords R =
     (let override = getenv R ''POLARIS_NAMESPACE_SENSITIVE_WORDS''
      in if override \<noteq> [] then map (\<lambda>s. TrimSpace R (ToLower R s)) (Split override CHR '','')
         else defaultNamespaceSensitiveWords)"

text \<open>The last loop: the first word that is not empty and occurs in the namespace.\<close>

fun firstSensitive :: "string list \<Rightarrow> string \<Rightarrow> string option" where
  "firstSensitive [] namespaceLower = None"
| "firstSensitive (sensitive # rest) namespaceLower =
     (if sensitive = [] then firstSensitive rest namespaceLower
      else if Contains namespaceLower sensitive then Some sensitive
      else firstSensitive rest namespaceLower)"

definition sensitiveCheckDisabled :: "runtime \<Rightarrow> bool" where
  "sensitiveCheckDisabled R \<longleftrightarrow>
     getenv R ''POLARIS_DISABLE_NAMESPACE_SENSITIVE_CHECK'' = ''1''
     \<or> getenv R ''POLARIS_DISABLE_NAMESPACE_SENSITIVE_CHECK'' = ''true''"

definition validateSecurityConfigs ::
  "runtime \<Rightarrow> Polaris \<Rightarrow> ValidationResult \<Rightarrow> ValidationResult" where
  "validateSecurityConfigs R c result =
     (let r1 =
        (if Token c \<noteq> [] \<and> getenv R ''POLARIS_ENABLE_TOKEN_COMPLEXITY_CHECK'' = ''1'' then
           (if tokenLacksLetterOrDigit (Token c) then
              AddError result ''token''
                ''token must contain both letters and numbers (POLARIS_ENABLE_TOKEN_COMPLEXITY_CHECK=1)''
                REDACTED
            else result)
         else result)
      in if Namespace c = [] then r1
         else if sensitiveCheckDisabled R then r1
         else (case firstSensitive (sensitiveWords R) (ToLower R (Namespace c)) of
                 None \<Rightarrow> r1
               | Some sensitive \<Rightarrow>
                   AddError r1 ''namespace''
                     (''namespace should not contain sensitive word: '' @ sensitive)
                     (VString (Namespace c))))"

definition validateNetworkConfigs :: "ValidationResult \<Rightarrow> ValidationResult" where
  "validateNetworkConfigs result = result"

definition validatePerformanceConfigs :: "ValidationResult \<Rightarrow> ValidationResult" where
  "validatePerformanceConfigs result = result"

definition Validate :: "runtime \<Rightarrow> conf_constants \<Rightarrow> Validator \<Rightarrow> ValidationResult" where
  "Validate R K v =
     (case config v of
        None \<Rightarrow> AddError NewValidationResult ''config'' ''configuration is required'' VNil
      | Some c \<Rightarrow>
          validatePerformanceConfigs
            (validateNetworkConfigs
              (validateSecurityConfigs R c
                (validateDependencies c
                  (validateTimeConfigs K c
                    (validateEnumValues
                      (validateNumericRanges K c
                        (validateBasicFields c NewValidationResult))))))))"

text \<open>\<open>ValidateConfig\<close> returns an error value or nil; the error is its text.\<close>

definition ValidateConfig :: "runtime \<Rightarrow> conf_constants \<Rightarrow> Polaris option \<Rightarrow> string option" where
  "ValidateConfig R K c =
     (let result = Validate R K (NewValidator c)
      in if \<not> IsValid result then
           Some (''configuration validation failed: '' @ ValidationResult_Error R result)
         else None)"

subsection \<open>Notions for the properties of validation\<close>

text \<open>The invariant of a validation result: it is valid exactly when it holds no error.\<close>

definition validity_invariant :: "ValidationResult \<Rightarrow> bool" where
  "validity_invariant r \<longleftrightarrow> (IsValid r \<longleftrightarrow> Errors r = [])"

definition namespaceErrors :: "ValidationResult \<Rightarrow> ValidationError list" where
  "namespaceErrors r = filter (\<lambda>e. Field e = ''namespace'') (Errors r)"

definition tokenErrors :: "ValidationResult \<Rightarrow> ValidationError list" where
  "tokenErrors r = filter (\<lambda>e. Field e = ''token'') (Errors r)"

text \<open>The three conditions the option table of the spec gives for a namespace.\<close>

definition namespace_well_formed :: "string \<Rightarrow> bool" where
  "namespace_well_formed ns \<longleftrightarrow> ns \<noteq> [] \<and> length ns \<le> 64 \<and> list_all is_namespace_char ns"

text \<open>The length condition the option table of the spec gives for a token.\<close>

definition token_length_ok :: "string \<Rightarrow> bool" where
  "token_length_ok t \<longleftrightarrow> t = [] \<or> (8 \<le> length t \<and> length t \<le> 1024)"

text \<open>What validation reads of a token: four flags, nothing of its content.\<close>

definition token_profile :: "string \<Rightarrow> bool \<times> bool \<times> bool \<times> bool" where
  "token_profile t = (t = [], length t > 1024, length t < 8, tokenLacksLetterOrDigit t)"

text \<open>Every error about the token carries the fixed placeholder.\<close>

definition token_values_redacted :: "ValidationResult \<Rightarrow> bool" where
  "token_values_redacted r \<longleftrightarrow> list_all (\<lambda>e. Value e = REDACTED) (tokenErrors r)"

subsection \<open>Concrete inputs for the examples\<close>

text \<open>
  A process with no environment variable set; the Unicode routines are the identity and
  \<open>%v\<close> prints a placeholder, which no example depends on.
\<close>

definition plain_runtime :: runtime where
  "plain_runtime =
     \<lparr>getenv = (\<lambda>k. []), unicode_ToLower = (\<lambda>s. s), unicode_TrimSpace = (\<lambda>s. s),
      fmt_v = (\<lambda>v. ''?''), now_unix = 1700000000, lynx_app = True, lynx_name = ''svc'',
      SetControlPlane_error = None, sdk_type_name = ''*api.sdkContext''\<rparr>"

text \<open>The same process started with \<open>POLARIS_ENABLE_TOKEN_COMPLEXITY_CHECK=1\<close>.\<close>

definition complexity_runtime :: runtime where
  "complexity_runtime =
     plain_runtime\<lparr>getenv :=
       (\<lambda>k. if k = ''POLARIS_ENABLE_TOKEN_COMPLEXITY_CHECK'' then ''1'' else [])\<rparr>"

text \<open>
  Bounds for the examples: those of TTL and timeout are the ones the comments of the
  validator quote; the others are picked so that the configuration of the repository's
  tests is valid.
\<close>

definition sample_constants :: conf_constants where
  "sample_constants =
     \<lparr>MinWeight = 1, MaxWeight = 1000, MinTTL = 5, MaxTTL = 300, MinRetryTimes = 0,
      MaxRetryTimes = 10, MinTimeoutSeconds = 1, MaxTimeoutSeconds = 60,
      MinShutdownTimeout = 5000000000, MaxShutdownTimeout = 300000000000,
      DefaultShutdownTimeout = 30000000000\<rparr>"

text \<open>The valid configuration of \<open>TestPolarisPlugin_Configuration\<close>.\<close>

definition test_config :: Polaris where
  "test_config =
     \<lparr>Namespace = ''test-namespace'', Token = ''test-token'', Weight = 100, Ttl = 30,
      MaxRetryTimesCfg = 0, Timeout = Some 10000000000, ShutdownTimeout = None\<rparr>"

definition admin_config :: Polaris where
  "admin_config = test_config\<lparr>Namespace := ''admin''\<rparr>"

definition letters_only_config :: Polaris where
  "letters_only_config = test_config\<lparr>Token := ''abcdefgh''\<rparr>"

section \<open>The plugin and what it does to the outside\<close>

text \<open>
  The methods under verification run for their effects: log lines, metric counters, calls
  of other methods of the plugin whose bodies are not among the sources, and goroutines
  they start. A run of a method is the list of its effects in program order. A call of a
  method that is not in the sources is an effect \<open>Call\<close> with the callee's name and
  arguments; such a callee is taken not to write the fields modelled here. \<open>Go\<close> is a
  \<open>go\<close> statement. \<open>Panic\<close> ends a run: nothing follows it. Mutexes are left out, a run
  being sequential.
\<close>

datatype log_level = Info | Warn | Error

datatype effect =
    Log log_level string "go_value list"
  | Call string "go_value list"
  | Go string "go_value list"
  | Panic string

fun is_Panic :: "effect \<Rightarrow> bool" where
  "is_Panic (Panic m) = True"
| "is_Panic e = False"

definition panicked :: "effect list \<Rightarrow> bool" where
  "panicked t \<longleftrightarrow> list_ex is_Panic t"

text \<open>Sequential composition of two runs.\<close>

definition andThen :: "effect list \<Rightarrow> effect list \<Rightarrow> effect list" where
  "andThen t u = (if panicked t then t else t @ u)"

text \<open>A pointer to a component whose fields the sources at hand never read.\<close>

datatype component = Component

text \<open>
  Modelled from the spec: the struct \<open>PlugPolaris\<close> is declared outside the sources; these
  are the fields the sources use. The two flags are the \<open>int32\<close> words that
  \<open>getCleanupStats\<close> loads atomically. The watcher maps are lists of key and watcher, in
  the order in which \<open>range\<close> happens to visit them, with distinct keys. The two retry
  guards are the per-key flags of the spec's RetryGuard: the set of keys whose flag is up.
\<close>

record PlugPolaris =
  initialized :: int
  destroyed :: int
  conf :: "Polaris option"
  metrics :: "component option"
  retryManager :: "component option"
  circuitBreaker :: "component option"
  serviceInfo :: "component option"
  sdk :: "component option"
  polaris :: "component option"
  healthCheckCh :: "component option"
  activeWatchers :: "(string \<times> component option) list"
  configWatchers :: "(string \<times> component option) list"
  serviceRetryGuard :: "string set"
  configRetryGuard :: "string set"

text \<open>
  Modelled from the spec: \<open>IsInitialized\<close>, \<open>IsDestroyed\<close> and \<open>setDestroyed\<close> are not in the
  sources; the spec calls the flag they serve an atomic "destroyed" flag, so they load
  and store the two words.
\<close>

definition IsInitialized :: "PlugPolaris \<Rightarrow> bool" where
  "IsInitialized p \<longleftrightarrow> initialized p = 1"

definition IsDestroyed :: "PlugPolaris \<Rightarrow> bool" where
  "IsDestroyed p \<longleftrightarrow> destroyed p = 1"

definition setDestroyed :: "PlugPolaris \<Rightarrow> PlugPolaris" where
  "setDestroyed p = p\<lparr>destroyed := 1\<rparr>"

definition GetNamespace :: "PlugPolaris \<Rightarrow> string" where
  "GetNamespace p =
     (if IsDestroyed p then ''default''
      else (case conf p of Some c \<Rightarrow> Namespace c | None \<Rightarrow> ''default''))"

definition getShutdownTimeoutDuration :: "conf_constants \<Rightarrow> PlugPolaris \<Rightarrow> int" where
  "getShutdownTimeoutDuration K p =
     (case conf p of
        None \<Rightarrow> DefaultShutdownTimeout K
      | Some c \<Rightarrow>
          (case ShutdownTimeout c of
             None \<Rightarrow> DefaultShutdownTimeout K
           | Some t \<Rightarrow>
               if t > 0 then
                 (let d = t;
                      d = (if d < MinShutdownTimeout K then MinShutdownTimeout K else d);
                      d = (if d > MaxShutdownTimeout K then MaxShutdownTimeout K else d)
                  in d)
               else DefaultShutdownTimeout K))"

subsection \<open>Change events\<close>

text \<open>A metric is recorded only when the metrics component is there.\<close>

definition withMetrics :: "PlugPolaris \<Rightarrow> effect \<Rightarrow> effect list" where
  "withMetrics p e = (if metrics p \<noteq> None then [e] else [])"

text \<open>The loop of \<open>notifyServiceChange\<close> over the instances, on the notification map.\<close>

fun countHealth ::
  "Instance option list \<Rightarrow> (string \<times> go_value) list \<Rightarrow> (string \<times> go_value) list" where
  "countHealth [] notification = notification"
| "countHealth (None # rest) notification = countHealth rest notification"
| "countHealth (Some i # rest) notification =
     countHealth rest
       (if IsHealthy i then
          (case map_of notification ''healthy_count'' of
             Some (VInt count) \<Rightarrow> AList.update ''healthy_count'' (VInt (count + 1)) notification
           | _ \<Rightarrow> notification)
        else
          (case map_of notification ''unhealthy_count'' of
             Some (VInt count) \<Rightarrow> AList.update ''unhealthy_count'' (VInt (count + 1)) notification
           | _ \<Rightarrow> notification))"

definition serviceNotification ::
  "runtime \<Rightarrow> Polaris \<Rightarrow> string \<Rightarrow> Instance option list \<Rightarrow> (string \<times> go_value) list" where
  "serviceNotification R c serviceName instances =
     countHealth instances
       [(''event_type'', VString ''service_change''),
        (''service_name'', VString serviceName),
        (''namespace'', VString (Namespace c)),
        (''instance_count'', VInt (int (length instances))),
        (''timestamp'', VInt (now_unix R)),
        (''healthy_count'', VInt 0),
        (''unhealthy_count'', VInt 0)]"

definition notifyServiceChange ::
  "runtime \<Rightarrow> PlugPolaris \<Rightarrow> string \<Rightarrow> Instance option list \<Rightarrow> effect list" where
  "notifyServiceChange R p serviceName instances =
     (case conf p of
        None \<Rightarrow> []
      | Some c \<Rightarrow>
          [Log Info ''Service change notification: %+v''
             [VMap (serviceNotification R c serviceName instances)]])"

definition handleServiceInstancesChanged ::
  "runtime \<Rightarrow> PlugPolaris \<Rightarrow> string \<Rightarrow> Instance option list \<Rightarrow> effect list" where
  "handleServiceInstancesChanged R p serviceName instances =
     (if IsDestroyed p then []
      else
        (case conf p of
           None \<Rightarrow> []
         | Some c \<Rightarrow>
             [Log Info ''Service %s instances changed: %d instances''
                [VString serviceName, VInt (int (length instances))]]
             @ withMetrics p
                 (Call ''p.metrics.RecordServiceDiscovery''
                    [VString serviceName, VString (Namespace c), VString ''changed''])
             @ [Call ''p.updateServiceInstanceCache'' [VString serviceName, VInstances instances],
                Call ''p.recordServiceChangeAudit'' [VString serviceName, VInstances instances]]
             @ notifyServiceChange R p serviceName instances
             @ [Call ''p.triggerLoadBalancerUpdate'' [VString serviceName, VInstances instances],
                Call ''p.checkServiceHealth'' [VString serviceName, VInstances instances]]))"

text \<open>
  \<open>config.GetContent()\<close> on a nil \<open>model.ConfigFile\<close> is a call through a nil interface:
  the run panics there.
\<close>

definition configNotification ::
  "runtime \<Rightarrow> Polaris \<Rightarrow> string \<Rightarrow> string \<Rightarrow> ConfigFile \<Rightarrow> (string \<times> go_value) list" where
  "configNotification R c fileName grp cf =
     [(''event_type'', VString ''config_change''),
      (''config_file'', VString fileName),
      (''grp'', VString grp),
      (''namespace'', VString (Namespace c)),
      (''content_length'', VInt (int (length (GetContent cf)))),
      (''timestamp'', VInt (now_unix R))]"

definition notifyConfigChange ::
  "runtime \<Rightarrow> PlugPolaris \<Rightarrow> string \<Rightarrow> string \<Rightarrow> ConfigFile option \<Rightarrow> effect list" where
  "notifyConfigChange R p fileName grp cfg =
     (case conf p of
        None \<Rightarrow> []
      | Some c \<Rightarrow>
          (case cfg of
             None \<Rightarrow> [Panic ''invalid memory address or nil pointer dereference'']
           | Some cf \<Rightarrow>
               [Log Info ''Config change notification: %+v''
                  [VMap (configNotification R c fileName grp cf)]]))"

definition triggerConfigReload ::
  "runtime \<Rightarrow> PlugPolaris \<Rightarrow> string \<Rightarrow> string \<Rightarrow> ConfigFile option \<Rightarrow> effect list" where
  "triggerConfigReload R p fileName grp cfg =
     (case conf p of
        None \<Rightarrow> []
      | Some c \<Rightarrow>
          (case cfg of
             None \<Rightarrow> [Panic ''invalid memory address or nil pointer dereference'']
           | Some cf \<Rightarrow>
               [Log Info ''Config reload triggered: %+v''
                  [VMap [(''config_file'', VString fileName),
                         (''grp'', VString grp),
                         (''namespace'', VString (Namespace c)),
                         (''content_length'', VInt (int (length (GetContent cf)))),
                         (''reload_type'', VString ''hot_reload''),
                         (''timestamp'', VInt (now_unix R))]]]))"

definition validateConfigChange :: "string \<Rightarrow> string \<Rightarrow> ConfigFile option \<Rightarrow> effect list" where
  "validateConfigChange fileName grp cfg =
     (case cfg of
        None \<Rightarrow> []
      | Some cf \<Rightarrow>
          (let content = GetContent cf
           in if length content = 0 then
                [Log Warn ''Config %s:%s has empty content'' [VString fileName, VString grp]]
              else
                [Log Info ''Config %s:%s validation passed, content length: %d''
                   [VString fileName, VString grp, VInt (int (length content))]]))"

definition handleConfigChanged ::
  "runtime \<Rightarrow> PlugPolaris \<Rightarrow> string \<Rightarrow> string \<Rightarrow> ConfigFile option \<Rightarrow> effect list" where
  "handleConfigChanged R p fileName grp cfg =
     (if IsDestroyed p \<or> conf p = None then []
      else
        andThen
          ([Log Info ''Config %s:%s changed'' [VString fileName, VString grp]]
           @ withMetrics p (Call ''p.metrics.RecordConfigChange'' [VString fileName, VString grp])
           @ [Call ''p.recordConfigChangeAudit'' [VString fileName, VString grp, VConfig cfg],
              Call ''p.updateConfigCache'' [VString fileName, VString grp, VConfig cfg]])
          (andThen (notifyConfigChange R p fileName grp cfg)
            (andThen (triggerConfigReload R p fileName grp cfg)
              (validateConfigChange fileName grp cfg))))"

subsection \<open>Error events and the retry guard\<close>

text \<open>
  An error event carries a non-nil \<open>error\<close>; the handlers see its text.
\<close>

definition handleServiceWatchDegradation ::
  "runtime \<Rightarrow> PlugPolaris \<Rightarrow> string \<Rightarrow> string \<Rightarrow> effect list" where
  "handleServiceWatchDegradation R p serviceName err =
     (case conf p of
        None \<Rightarrow> []
      | Some c \<Rightarrow>
          (let degradationInfo =
             [(''service_name'', VString serviceName),
              (''namespace'', VString (Namespace c)),
              (''error'', VString err),
              (''degradation_type'', VString ''service_watch_failure''),
              (''timestamp'', VInt (now_unix R)),
              (''fallback_strategy'', VString ''cache_only'')]
           in [Log Warn ''Service watch degradation for %s: %v'' [VString serviceName, VErr err],
               Call ''p.useCachedServiceInstances'' [VString serviceName],
               Call ''p.switchToBackupDiscovery'' [VString serviceName],
               Call ''p.notifyDegradationMode'' [VString serviceName, VMap degradationInfo],
               Log Warn ''Service degradation activated: %+v'' [VMap degradationInfo]]))"

definition handleConfigWatchDegradation ::
  "runtime \<Rightarrow> PlugPolaris \<Rightarrow> string \<Rightarrow> string \<Rightarrow> string \<Rightarrow> effect list" where
  "handleConfigWatchDegradation R p fileName grp err =
     (case conf p of
        None \<Rightarrow> []
      | Some c \<Rightarrow>
          (let degradationInfo =
             [(''config_file'', VString fileName),
              (''group'', VString grp),
              (''namespace'', VString (Namespace c)),
              (''error'', VString err),
              (''degradation_type'', VString ''config_watch_failure''),
              (''timestamp'', VInt (now_unix R)),
              (''fallback_strategy'', VString ''cache_only'')]
           in [Log Warn ''Config watch degradation for %s:%s: %v''
                 [VString fileName, VString grp, VErr err],
               Log Warn ''Config degradation activated: %+v'' [VMap degradationInfo]]))"

text \<open>
  Modelled from the spec: \<open>tryStartServiceWatchRetry\<close> and \<open>tryStartConfigWatchRetry\<close> are
  called by the handlers and defined outside the sources. The spec's RetryGuard is a
  "per-key boolean set by compare-and-set when a retry loop starts, cleared when that
  loop terminates": the call raises the flag of the key and answers true when the flag
  was down, and answers false, changing nothing, when it was up. The loop started by
  \<open>go p.retryServiceWatch\<close> is not in the sources either; of it the spec says that it
  "clears its own guard on termination".
\<close>

definition tryStartServiceWatchRetry :: "PlugPolaris \<Rightarrow> string \<Rightarrow> bool \<times> PlugPolaris" where
  "tryStartServiceWatchRetry p serviceName =
     (if serviceName \<in> serviceRetryGuard p then (False, p)
      else (True, p\<lparr>serviceRetryGuard := insert serviceName (serviceRetryGuard p)\<rparr>))"

definition tryStartConfigWatchRetry :: "PlugPolaris \<Rightarrow> string \<Rightarrow> bool \<times> PlugPolaris" where
  "tryStartConfigWatchRetry p configKey =
     (if configKey \<in> configRetryGuard p then (False, p)
      else (True, p\<lparr>configRetryGuard := insert configKey (configRetryGuard p)\<rparr>))"

definition endServiceWatchRetry :: "PlugPolaris \<Rightarrow> string \<Rightarrow> PlugPolaris" where
  "endServiceWatchRetry p serviceName = p\<lparr>serviceRetryGuard := serviceRetryGuard p - {serviceName}\<rparr>"

definition endConfigWatchRetry :: "PlugPolaris \<Rightarrow> string \<Rightarrow> PlugPolaris" where
  "endConfigWatchRetry p configKey = p\<lparr>configRetryGuard := configRetryGuard p - {configKey}\<rparr>"

text \<open>
  The two handlers are written over any guard operation \<open>tryStart\<close>, as the sources give
  them; the plugin's own handlers pass the plugin's guard.
\<close>

definition handleServiceWatchError_with ::
  "(PlugPolaris \<Rightarrow> string \<Rightarrow> bool \<times> PlugPolaris) \<Rightarrow> runtime \<Rightarrow> PlugPolaris \<Rightarrow> string \<Rightarrow> string
     \<Rightarrow> PlugPolaris \<times> effect list" where
  "handleServiceWatchError_with tryStart R p serviceName err =
     (if IsDestroyed p then (p, [])
      else
        (let before =
           [Log Error ''Service %s watch error: %v'' [VString serviceName, VErr err]]
           @ withMetrics p
               (Call ''p.metrics.RecordSDKOperation''
                  [VString ''service_watch_error'', VString ''error''])
           @ [Call ''p.recordServiceWatchErrorAudit'' [VString serviceName, VErr err],
              Call ''p.sendServiceWatchAlert'' [VString serviceName, VErr err]]
           @ handleServiceWatchDegradation R p serviceName err
         in (case tryStart p serviceName of
               (True, p') \<Rightarrow> (p', before @ [Go ''p.retryServiceWatch'' [VString serviceName]])
             | (False, p') \<Rightarrow> (p', before))))"

definition handleServiceWatchError ::
  "runtime \<Rightarrow> PlugPolaris \<Rightarrow> string \<Rightarrow> string \<Rightarrow> PlugPolaris \<times> effect list" where
  "handleServiceWatchError = handleServiceWatchError_with tryStartServiceWatchRetry"

text \<open>\<open>fmt.Sprintf("%s:%s", fileName, group)\<close>.\<close>

definition configKeyOf :: "string \<Rightarrow> string \<Rightarrow> string" where
  "configKeyOf fileName grp = fileName @ '':'' @ grp"

definition handleConfigWatchError_with ::
  "(PlugPolaris \<Rightarrow> string \<Rightarrow> bool \<times> PlugPolaris) \<Rightarrow> runtime \<Rightarrow> PlugPolaris \<Rightarrow> string \<Rightarrow> string
     \<Rightarrow> string \<Rightarrow> PlugPolaris \<times> effect list" where
  "handleConfigWatchError_with tryStart R p fileName grp err =
     (if IsDestroyed p then (p, [])
      else
        (let before =
           [Log Error ''Config %s:%s watch error: %v'' [VString fileName, VString grp, VErr err]]
           @ withMetrics p
               (Call ''p.metrics.RecordConfigOperation''
                  [VString ''watch_error'', VString fileName, VString grp, VString ''error''])
           @ [Call ''p.recordConfigWatchErrorAudit'' [VString fileName, VString grp, VErr err],
              Call ''p.sendConfigWatchAlert'' [VString fileName, VString grp, VErr err]]
           @ handleConfigWatchDegradation R p fileName grp err;
             configKey = configKeyOf fileName grp
         in (case tryStart p configKey of
               (True, p') \<Rightarrow>
                 (p', before @ [Go ''p.retryConfigWatch'' [VString fileName, VString grp]])
             | (False, p') \<Rightarrow> (p', before))))"

definition handleConfigWatchError ::
  "runtime \<Rightarrow> PlugPolaris \<Rightarrow> string \<Rightarrow> string \<Rightarrow> string \<Rightarrow> PlugPolaris \<times> effect list" where
  "handleConfigWatchError = handleConfigWatchError_with tryStartConfigWatchRetry"

text \<open>
  The plugin in time. Error events arrive and retry loops end, one at a time (the guard
  operation is a single atomic step, so the order of these steps is all that an
  interleaving of goroutines can vary). Beside the plugin the system counts, per key, the
  retry loops that were started and have not ended. A loop that ends clears its guard;
  an end event for a key with no live loop does not occur, and is ignored.
\<close>

datatype watch_event =
    ServiceWatchError string string
  | ConfigWatchError string string string
  | ServiceRetryEnds string
  | ConfigRetryEnds string

record watch_system =
  plugin :: PlugPolaris
  liveServiceRetries :: "string \<Rightarrow> nat"
  liveConfigRetries :: "string \<Rightarrow> nat"

definition started :: "effect list \<Rightarrow> effect \<Rightarrow> nat" where
  "started t g = length (filter (\<lambda>e. e = g) t)"

fun watch_step :: "runtime \<Rightarrow> watch_system \<Rightarrow> watch_event \<Rightarrow> watch_system" where
  "watch_step R s (ServiceWatchError serviceName err) =
     (case handleServiceWatchError R (plugin s) serviceName err of
        (p', t) \<Rightarrow>
          s\<lparr>plugin := p',
            liveServiceRetries := (liveServiceRetries s)
              (serviceName := liveServiceRetries s serviceName
                 + started t (Go ''p.retryServiceWatch'' [VString serviceName]))\<rparr>)"
| "watch_step R s (ConfigWatchError fileName grp err) =
     (case handleConfigWatchError R (plugin s) fileName grp err of
        (p', t) \<Rightarrow>
          s\<lparr>plugin := p',
            liveConfigRetries := (liveConfigRetries s)
              (configKeyOf fileName grp := liveConfigRetries s (configKeyOf fileName grp)
                 + started t (Go ''p.retryConfigWatch'' [VString fileName, VString grp]))\<rparr>)"
| "watch_step R s (ServiceRetryEnds serviceName) =
     (if liveServiceRetries s serviceName = 0 then s
      else s\<lparr>plugin := endServiceWatchRetry (plugin s) serviceName,
             liveServiceRetries := (liveServiceRetries s)
               (serviceName := liveServiceRetries s serviceName - 1)\<rparr>)"
| "watch_step R s (ConfigRetryEnds configKey) =
     (if liveConfigRetries s configKey = 0 then s
      else s\<lparr>plugin := endConfigWatchRetry (plugin s) configKey,
             liveConfigRetries := (liveConfigRetries s)
               (configKey := liveConfigRetries s configKey - 1)\<rparr>)"

definition watch_run :: "runtime \<Rightarrow> watch_system \<Rightarrow> watch_event list \<Rightarrow> watch_system" where
  "watch_run R s evs = foldl (watch_step R) s evs"

text \<open>A plugin with no retry loop under way.\<close>

definition quiet_system :: "PlugPolaris \<Rightarrow> watch_system" where
  "quiet_system p =
     \<lparr>plugin = p\<lparr>serviceRetryGuard := {}, configRetryGuard := {}\<rparr>,
      liveServiceRetries = (\<lambda>k. 0), liveConfigRetries = (\<lambda>k. 0)\<rparr>"

text \<open>The guard mirrors the live loops: a key's flag is up exactly when one loop is live.\<close>

definition guard_invariant :: "watch_system \<Rightarrow> bool" where
  "guard_invariant s \<longleftrightarrow>
     (\<forall>k. liveServiceRetries s k = (if k \<in> serviceRetryGuard (plugin s) then 1 else 0))
     \<and> (\<forall>k. liveConfigRetries s k = (if k \<in> configRetryGuard (plugin s) then 1 else 0))"

subsection \<open>Shutdown\<close>

text \<open>
  A method that also writes fields of the plugin returns the plugin with its run.
  \<open>thenDo\<close> runs the next method on the plugin the previous one left, unless that one
  panicked.
\<close>

definition thenDo ::
  "PlugPolaris \<times> effect list \<Rightarrow> (PlugPolaris \<Rightarrow> PlugPolaris \<times> effect list)
     \<Rightarrow> PlugPolaris \<times> effect list" where
  "thenDo r f =
     (case r of (p, t) \<Rightarrow>
        if panicked t then (p, t) else (case f p of (p', u) \<Rightarrow> (p', t @ u)))"

definition restoreControlPlane :: "runtime \<Rightarrow> effect list" where
  "restoreControlPlane R =
     (if \<not> lynx_app R then []
      else
        [Log Info ''Removing from Lynx control plane'' [],
         Call ''lynx.Lynx().SetControlPlane'' []]
        @ (case SetControlPlane_error R of
             Some err \<Rightarrow> [Log Warn ''Failed to restore default control plane: %v'' [VErr err]]
           | None \<Rightarrow> []))"

definition stopHealthCheck :: "PlugPolaris \<Rightarrow> PlugPolaris \<times> effect list" where
  "stopHealthCheck p =
     (if healthCheckCh p \<noteq> None then
        (p\<lparr>healthCheckCh := None\<rparr>,
         [Log Info ''Stopping health check'' [], Call ''close(p.healthCheckCh)'' []])
      else (p, []))"

text \<open>The two loops of \<open>cleanupWatchers\<close>: a nil watcher is logged and not stopped.\<close>

fun stopServiceWatchers :: "(string \<times> component option) list \<Rightarrow> effect list" where
  "stopServiceWatchers [] = []"
| "stopServiceWatchers ((serviceName, watcher) # rest) =
     Log Info ''Stopping service watcher for: %s'' [VString serviceName]
     # (if watcher \<noteq> None then [Call ''ServiceWatcher.Stop'' [VString serviceName]] else [])
     @ stopServiceWatchers rest"

fun stopConfigWatchers :: "(string \<times> component option) list \<Rightarrow> effect list" where
  "stopConfigWatchers [] = []"
| "stopConfigWatchers ((configKey, watcher) # rest) =
     Log Info ''Stopping config watcher for: %s'' [VString configKey]
     # (if watcher \<noteq> None then [Call ''ConfigWatcher.Stop'' [VString configKey]] else [])
     @ stopConfigWatchers rest"

definition cleanupWatchers :: "PlugPolaris \<Rightarrow> PlugPolaris \<times> effect list" where
  "cleanupWatchers p =
     (let serviceWatcherCount = length (activeWatchers p);
          configWatcherCount = length (configWatchers p)
      in (p\<lparr>activeWatchers := [], configWatchers := []\<rparr>,
          [Log Info ''Cleaning up watchers'' []]
          @ stopServiceWatchers (activeWatchers p)
          @ stopConfigWatchers (configWatchers p)
          @ [Log Info ''Cleaned up %d service watchers and %d config watchers''
               [VInt (int serviceWatcherCount), VInt (int configWatcherCount)]]))"

text \<open>
  \<open>closeSDKConnection\<close> reads \<open>p.conf.Namespace\<close> before it closes anything, and panics on a
  nil \<open>conf\<close>. The four API constructors of the SDK return non-nil clients.
\<close>

definition closeSDKConnection :: "runtime \<Rightarrow> PlugPolaris \<Rightarrow> PlugPolaris \<times> effect list" where
  "closeSDKConnection R p =
     (if sdk p \<noteq> None then
        (case conf p of
           None \<Rightarrow>
             (p, [Log Info ''Closing SDK connection'' [],
                  Panic ''invalid memory address or nil pointer dereference''])
         | Some c \<Rightarrow>
             (let sdkInfo = [(''sdk_type'', VString (sdk_type_name R)),
                             (''namespace'', VString (Namespace c))]
              in (p\<lparr>sdk := None\<rparr>,
                  [Log Info ''Closing SDK connection'' [],
                   Log Info ''Closing consumer API'' [],
                   Call ''consumerAPI.Destroy'' [],
                   Log Info ''Closing provider API'' [],
                   Call ''providerAPI.Destroy'' [],
                   Log Info ''Closing config API'' [],
                   Log Info ''Closing limit API'' [],
                   Log Info ''Destroying SDK context'' [],
                   Call ''p.sdk.Destroy'' [],
                   Log Info ''SDK connection closed: %+v'' [VMap sdkInfo]])))
      else (p, []))"

definition destroyPolarisInstance :: "runtime \<Rightarrow> PlugPolaris \<Rightarrow> PlugPolaris \<times> effect list" where
  "destroyPolarisInstance R p =
     (if polaris p \<noteq> None then
        (case conf p of
           None \<Rightarrow>
             (p, [Log Info ''Destroying Polaris instance'' [],
                  Panic ''invalid memory address or nil pointer dereference''])
         | Some c \<Rightarrow>
             (let instanceInfo = [(''service'', VString (lynx_name R)),
                                  (''namespace'', VString (Namespace c)),
                                  (''instance_type'', VString ''*polaris.Polaris'')];
                  destroyStats = [(''service_name'', VString (lynx_name R)),
                                  (''namespace'', VString (Namespace c)),
                                  (''destroy_time'', VInt (now_unix R)),
                                  (''instance_info'', VMap instanceInfo)]
              in (p\<lparr>polaris := None\<rparr>,
                  [Log Info ''Destroying Polaris instance'' [],
                   Log Info ''Stopping Polaris instance services'' [],
                   Log Info ''Cleaning up instance resources'' [],
                   Log Info ''Polaris instance destroyed: %+v'' [VMap destroyStats]])))
      else (p, []))"

definition releaseMemoryResources :: "PlugPolaris \<Rightarrow> PlugPolaris \<times> effect list" where
  "releaseMemoryResources p =
     (p\<lparr>serviceInfo := None, conf := None, metrics := None, retryManager := None,
        circuitBreaker := None\<rparr>,
      [Log Info ''Releasing memory resources'' []]
      @ (if serviceInfo p \<noteq> None then [Log Info ''Clearing service info'' []] else [])
      @ (if conf p \<noteq> None then [Log Info ''Clearing configuration'' []] else [])
      @ (if metrics p \<noteq> None then [Log Info ''Clearing metrics'' []] else [])
      @ (if retryManager p \<noteq> None then [Log Info ''Clearing retry manager'' []] else [])
      @ (if circuitBreaker p \<noteq> None then [Log Info ''Clearing circuit breaker'' []] else [])
      @ [Call ''p.clearServiceCache'' [], Call ''p.clearConfigCache'' [],
         Log Info ''Memory resources released'' []])"

definition stopBackgroundTasks :: "PlugPolaris \<Rightarrow> PlugPolaris \<times> effect list" where
  "stopBackgroundTasks p =
     (p\<lparr>retryManager := None, metrics := None\<rparr>,
      [Log Info ''Stopping background tasks'' []]
      @ (if retryManager p \<noteq> None then
           [Log Info ''Stopping retry manager background tasks'' []] else [])
      @ (if circuitBreaker p \<noteq> None then
           [Log Info ''Stopping circuit breaker background tasks'' [],
            Call ''p.circuitBreaker.ForceClose'' []] else [])
      @ (if metrics p \<noteq> None then
           [Log Info ''Stopping metrics collection tasks'' []] else [])
      @ [Log Info ''Stopping health check tasks'' [],
         Log Info ''Stopping monitoring tasks'' [],
         Log Info ''Stopping audit log tasks'' [],
         Log Info ''Background tasks stopped'' []])"

definition getCleanupStats :: "runtime \<Rightarrow> PlugPolaris \<Rightarrow> (string \<times> go_value) list" where
  "getCleanupStats R p =
     [(''cleanup_time'', VInt (now_unix R)),
      (''plugin_state'', VMap [(''initialized'', VInt (initialized p)),
                              (''destroyed'', VInt (destroyed p))]),
      (''resources'', VMap [(''sdk_closed'', VBool (sdk p = None)),
                           (''instance_destroyed'', VBool (polaris p = None)),
                           (''metrics_cleared'', VBool (metrics p = None)),
                           (''retry_cleared'', VBool (retryManager p = None)),
                           (''breaker_cleared'', VBool (circuitBreaker p = None))])]"

text \<open>
  The timed phase. The teardown goroutine runs \<open>closeSDKConnection\<close> and
  \<open>destroyPolarisInstance\<close> and closes the channel \<open>done\<close>; the caller waits in a \<open>select\<close>
  for \<open>done\<close> or for \<open>time.After(timeout)\<close>. How long the backend takes to close is not the
  plugin's to decide: \<open>close_takes\<close> is that time in nanoseconds, \<open>None\<close> for a close call
  that never returns, and \<open>timer_wins_tie\<close> says which case \<open>select\<close> takes when both
  channels become ready together. The goroutine calls the backend only when there is an
  SDK context to close; its other steps take no time. A timer of a non-positive timeout
  fires at once.
\<close>

record backend =
  close_takes :: "int option"
  timer_wins_tie :: bool

definition teardown :: "runtime \<Rightarrow> PlugPolaris \<Rightarrow> PlugPolaris \<times> effect list" where
  "teardown R p =
     thenDo (thenDo (closeSDKConnection R p) (destroyPolarisInstance R))
       (\<lambda>p'. (p', [Call ''close(done)'' []]))"

definition teardown_takes :: "backend \<Rightarrow> PlugPolaris \<Rightarrow> int option" where
  "teardown_takes B p = (if sdk p \<noteq> None \<and> conf p \<noteq> None then close_takes B else Some 0)"

definition done_first :: "backend \<Rightarrow> PlugPolaris \<Rightarrow> int \<Rightarrow> bool" where
  "done_first B p timeout =
     (case teardown_takes B p of
        None \<Rightarrow> False
      | Some d \<Rightarrow> d < max 0 timeout \<or> (d = max 0 timeout \<and> \<not> timer_wins_tie B))"

text \<open>How long the \<open>select\<close> statement blocks.\<close>

definition select_waits :: "backend \<Rightarrow> PlugPolaris \<Rightarrow> int \<Rightarrow> int" where
  "select_waits B p timeout =
     (if done_first B p timeout then (case teardown_takes B p of Some d \<Rightarrow> d | None \<Rightarrow> 0)
      else max 0 timeout)"

text \<open>
  When the timer wins, the goroutine is left behind: what it does later is not part of
  the run of \<open>CleanupTasks\<close>, and the fields it would clear are left as they are.
\<close>

definition timedTeardown ::
  "runtime \<Rightarrow> backend \<Rightarrow> int \<Rightarrow> PlugPolaris \<Rightarrow> PlugPolaris \<times> effect list" where
  "timedTeardown R B timeout p =
     (if done_first B p timeout then
        (case teardown R p of (p', t) \<Rightarrow> (p', Go ''teardown'' [] # t))
      else
        (p, [Go ''teardown'' [],
             Log Warn ''Polaris SDK/instance teardown did not finish within %v''
               [VDuration timeout]]))"

text \<open>What a call of \<open>CleanupTasks\<close> comes to: it returns an \<open>error\<close>, or the process dies.\<close>

datatype ending = Returns "string option" | Crashes

record cleanup_run =
  after :: PlugPolaris
  effects :: "effect list"
  ending :: ending
  blocked_for :: int

definition unregisterMetrics :: "PlugPolaris \<Rightarrow> PlugPolaris \<times> effect list" where
  "unregisterMetrics p =
     (if metrics p \<noteq> None then (p\<lparr>metrics := None\<rparr>, [Call ''p.metrics.Unregister'' []])
      else (p, []))"

definition CleanupTasks ::
  "runtime \<Rightarrow> conf_constants \<Rightarrow> backend \<Rightarrow> PlugPolaris \<Rightarrow> cleanup_run" where
  "CleanupTasks R K B p =
     (if \<not> IsInitialized p \<or> IsDestroyed p then
        \<lparr>after = p, effects = [], ending = Returns None, blocked_for = 0\<rparr>
      else
        (let p1 = setDestroyed p;
             deferred = (metrics p1 \<noteq> None);
             timeout = getShutdownTimeoutDuration K p1;
             local =
               thenDo
                 (thenDo
                    (p1,
                     withMetrics p1
                       (Call ''p.metrics.RecordSDKOperation'' [VString ''cleanup'', VString ''start''])
                     @ [Log Info ''Destroying Polaris plugin (shutdown timeout: %v)''
                          [VDuration timeout]]
                     @ restoreControlPlane R)
                    stopHealthCheck)
                 cleanupWatchers;
             timed = thenDo local (timedTeardown R B timeout);
             released =
               thenDo (thenDo (thenDo timed stopBackgroundTasks) unregisterMetrics)
                 releaseMemoryResources;
             finished =
               thenDo released
                 (\<lambda>p'. (p',
                    [Log Info ''Polaris plugin destroyed successfully'' []]
                    @ (if deferred then
                         withMetrics p'
                           (Call ''p.metrics.RecordSDKOperation''
                              [VString ''cleanup'', VString ''success''])
                       else [])))
         in \<lparr>after = fst finished, effects = snd finished,
             ending = (if panicked (snd finished) then Crashes else Returns None),
             blocked_for = select_waits B (fst local) timeout\<rparr>))"

section \<open>The retry manager\<close>

text \<open>
  Modelled from the spec: \<open>RetryManager\<close> and its method \<open>DoWithRetry\<close> are exercised by the
  repository's tests, and their source is not among the files at hand. The spec says:
  \<open>DoWithRetry(op)\<close> "invokes \<open>op\<close>; on failure, retries up to \<open>maxAttempts\<close> additional times,
  separated by a backoff delay (fixed or exponential with a cap; jitter optional);
  returns the first success, or the last error after \<open>1 + maxAttempts\<close> total
  invocations", and the policy is "maxAttempts \<ge> 0, backoff delay, optional jitter". The
  delay before the k-th retry is left to a function of k.

  An operation is a Go closure: it may write the variables it captured, so it maps their
  state to its result (\<open>None\<close> for a nil error) and their new state.
\<close>

record RetryManager =
  maxAttempts :: nat
  backoff :: "nat \<Rightarrow> int"

definition NewRetryManager :: "nat \<Rightarrow> int \<Rightarrow> RetryManager" where
  "NewRetryManager n delay = \<lparr>maxAttempts = n, backoff = (\<lambda>k. delay)\<rparr>"

datatype retry_effect = Invoke | Sleep int

fun retryLoop ::
  "(nat \<Rightarrow> int) \<Rightarrow> ('s \<Rightarrow> string option \<times> 's) \<Rightarrow> nat \<Rightarrow> nat \<Rightarrow> 's
     \<Rightarrow> string option \<times> 's \<times> retry_effect list" where
  "retryLoop delay op 0 k s = (case op s of (r, s') \<Rightarrow> (r, s', [Invoke]))"
| "retryLoop delay op (Suc left) k s =
     (case op s of
        (None, s') \<Rightarrow> (None, s', [Invoke])
      | (Some err, s') \<Rightarrow>
          (case retryLoop delay op left (Suc k) s' of
             (r, s'', t) \<Rightarrow> (r, s'', Invoke # Sleep (delay k) # t)))"

definition DoWithRetry ::
  "RetryManager \<Rightarrow> ('s \<Rightarrow> string option \<times> 's) \<Rightarrow> 's \<Rightarrow> string option \<times> 's \<times> retry_effect list" where
  "DoWithRetry rm op s = retryLoop (backoff rm) op (maxAttempts rm) 0 s"

definition invocations :: "retry_effect list \<Rightarrow> nat" where
  "invocations t = length (filter (\<lambda>e. e = Invoke) t)"

text \<open>The captured state after \<open>n\<close> invocations of the operation.\<close>

definition after_invocations :: "('s \<Rightarrow> string option \<times> 's) \<Rightarrow> nat \<Rightarrow> 's \<Rightarrow> 's" where
  "after_invocations op n s = ((\<lambda>x. snd (op x)) ^^ n) s"

text \<open>The two closures of \<open>TestRetryManager_Functionality\<close>, over their counter.\<close>

definition countingSuccess :: "nat \<Rightarrow> string option \<times> nat" where
  "countingSuccess successCount = (None, successCount + 1)"

definition countingFailure :: "nat \<Rightarrow> string option \<times> nat" where
  "countingFailure attemptCount = (Some ''assert.AnError general error for testing'', attemptCount + 1)"

section \<open>Notions for the properties of the plugin\<close>

text \<open>
  What a caller holds when an entry point of the sources returns: \<open>GetNamespace\<close> returns
  a string, the four event handlers return nothing. A deactivated error would be an
  \<open>error\<close> value.
\<close>

datatype reply = ReplyString string | ReplyNothing | ReplyError string

fun is_error_reply :: "reply \<Rightarrow> bool" where
  "is_error_reply (ReplyError e) = True"
| "is_error_reply r = False"

definition reply_of_GetNamespace :: "PlugPolaris \<Rightarrow> reply" where
  "reply_of_GetNamespace p = ReplyString (GetNamespace p)"



text \<open>The goroutines a run starts.\<close>

fun is_Go :: "effect \<Rightarrow> bool" where
  "is_Go (Go n a) = True"
| "is_Go e = False"

definition goroutines :: "effect list \<Rightarrow> effect list" where
  "goroutines t = filter is_Go t"










subsection \<open>Plugins for the examples\<close>

text \<open>A plugin as \<open>NewPolarisControlPlane\<close> leaves it in the tests: nothing set.\<close>

definition fresh_plugin :: PlugPolaris where
  "fresh_plugin =
     \<lparr>initialized = 0, destroyed = 0, conf = None, metrics = None, retryManager = None,
      circuitBreaker = None, serviceInfo = None, sdk = None, polaris = None,
      healthCheckCh = None, activeWatchers = [], configWatchers = [],
      serviceRetryGuard = {}, configRetryGuard = {}\<rparr>"

text \<open>An initialized plugin with two service watchers, one of them nil, and one config watcher.\<close>

definition running_plugin :: PlugPolaris where
  "running_plugin =
     fresh_plugin\<lparr>initialized := 1, conf := Some test_config, metrics := Some Component,
       retryManager := Some Component, circuitBreaker := Some Component,
       sdk := Some Component, polaris := Some Component, healthCheckCh := Some Component,
       activeWatchers := [(''orders'', Some Component), (''users'', None)],
       configWatchers := [(''app.yaml:default'', Some Component)]\<rparr>"

definition destroyed_plugin :: PlugPolaris where
  "destroyed_plugin = running_plugin\<lparr>destroyed := 1\<rparr>"

text \<open>A backend whose close call never returns, and one that closes in a second.\<close>

definition hanging_backend :: backend where
  "hanging_backend = \<lparr>close_takes = None, timer_wins_tie = True\<rparr>"

definition prompt_backend :: backend where
  "prompt_backend = \<lparr>close_takes = Some 1000000000, timer_wins_tie = True\<rparr>"

definition three_instances :: "Instance option list" where
  "three_instances =
     [Some \<lparr>instance_id = ''a'', IsHealthy = True\<rparr>, None,
      Some \<lparr>instance_id = ''b'', IsHealthy = False\<rparr>,
      Some \<lparr>instance_id = ''c'', IsHealthy = True\<rparr>]"

definition sample_file :: ConfigFile where
  "sample_file = \<lparr>GetContent = ''port: 8080''\<rparr>"

section \<open>Properties of configuration validation\<close>

subsection \<open>The invariant of a validation result\<close>

lemma AddError_invariant: "validity_invariant (AddError r f m v)"
  by (simp add: validity_invariant_def AddError_def)

lemma New_invariant: "validity_invariant NewValidationResult"
  by (simp add: validity_invariant_def NewValidationResult_def)

lemma validateBasicFields_invariant:
  "validity_invariant r \<Longrightarrow> validity_invariant (validateBasicFields c r)"
  by (simp add: validateBasicFields_def Let_def AddError_invariant)

lemma validateNumericRanges_invariant:
  "validity_invariant r \<Longrightarrow> validity_invariant (validateNumericRanges K c r)"
  by (simp add: validateNumericRanges_def Let_def AddError_invariant)

lemma validateTimeConfigs_invariant:
  "validity_invariant r \<Longrightarrow> validity_invariant (validateTimeConfigs K c r)"
  by (simp add: validateTimeConfigs_def Let_def AddError_invariant split: option.splits)

lemma validateDependencies_invariant:
  "validity_invariant r \<Longrightarrow> validity_invariant (validateDependencies c r)"
  by (simp add: validateDependencies_def Let_def AddError_invariant split: option.splits)

lemma validateSecurityConfigs_invariant:
  "validity_invariant r \<Longrightarrow> validity_invariant (validateSecurityConfigs R c r)"
  by (simp add: validateSecurityConfigs_def Let_def AddError_invariant split: option.splits)

lemma Validate_invariant: "validity_invariant (Validate R K v)"
proof (cases "config v")
  case None
  then show ?thesis by (simp add: Validate_def AddError_invariant)
next
  case (Some c)
  have "validity_invariant (validateBasicFields c NewValidationResult)"
    by (rule validateBasicFields_invariant [OF New_invariant])
  then have "validity_invariant (validateNumericRanges K c (validateBasicFields c NewValidationResult))"
    by (rule validateNumericRanges_invariant)
  then have "validity_invariant (validateTimeConfigs K c
      (validateEnumValues (validateNumericRanges K c (validateBasicFields c NewValidationResult))))"
    unfolding validateEnumValues_def by (rule validateTimeConfigs_invariant)
  then have "validity_invariant (validateSecurityConfigs R c (validateDependencies c (validateTimeConfigs K c
      (validateEnumValues (validateNumericRanges K c (validateBasicFields c NewValidationResult))))))"
    by (intro validateSecurityConfigs_invariant validateDependencies_invariant)
  with Some show ?thesis
    by (simp add: Validate_def validateNetworkConfigs_def validatePerformanceConfigs_def)
qed

text \<open>
  Claim C10. A validation result is valid exactly when its list of errors is empty:
  \<open>NewValidationResult\<close> establishes this, \<open>AddError\<close> keeps it (it clears \<open>IsValid\<close>
  and appends one error), every result of \<open>Validate\<close> has it, and so \<open>ValidateConfig\<close>
  returns an error exactly when \<open>Validate\<close> recorded at least one.
\<close>

theorem ValidationResult_invariant:
  "validity_invariant NewValidationResult
   \<and> (validity_invariant r \<longrightarrow> validity_invariant (AddError r f m v))
   \<and> \<not> IsValid (AddError r f m v)
   \<and> Errors (AddError r f m v) = Errors r @ [\<lparr>Field = f, Message = m, Value = v\<rparr>]
   \<and> validity_invariant (Validate R K (NewValidator c))
   \<and> (ValidateConfig R K c \<noteq> None) = (Errors (Validate R K (NewValidator c)) \<noteq> [])"
proof -
  have inv: "validity_invariant (Validate R K (NewValidator c))"
    by (rule Validate_invariant)
  have "(ValidateConfig R K c \<noteq> None) = (\<not> IsValid (Validate R K (NewValidator c)))"
    by (simp add: ValidateConfig_def Let_def)
  also have "\<dots> = (Errors (Validate R K (NewValidator c)) \<noteq> [])"
    using inv by (simp add: validity_invariant_def)
  finally show ?thesis
    using inv by (simp add: New_invariant AddError_invariant) (simp add: AddError_def)
qed

theorem ValidationResult_invariant_witness:
  "validity_invariant NewValidationResult
   \<and> validity_invariant (AddError NewValidationResult ''config'' ''configuration is required'' VNil)
   \<and> Errors (AddError NewValidationResult ''config'' ''configuration is required'' VNil)
       = [\<lparr>Field = ''config'', Message = ''configuration is required'', Value = VNil\<rparr>]
   \<and> ValidateConfig plain_runtime sample_constants None \<noteq> None
   \<and> Errors (Validate plain_runtime sample_constants (NewValidator None)) \<noteq> []
   \<and> ValidateConfig plain_runtime sample_constants (Some test_config) = None
   \<and> Errors (Validate plain_runtime sample_constants (NewValidator (Some test_config))) = []"
proof -
  note t = ValidationResult_invariant [of NewValidationResult "''config''"
      "''configuration is required''" VNil plain_runtime sample_constants]
  have e: "Errors (Validate plain_runtime sample_constants (NewValidator (Some test_config))) = []"
    by code_simp
  have n: "Errors (Validate plain_runtime sample_constants (NewValidator None)) \<noteq> []"
    by (simp add: Validate_def NewValidator_def AddError_def)
  from t [of None] t [of "Some test_config"] e n show ?thesis
    by (simp add: NewValidationResult_def)
qed

subsection \<open>The namespace\<close>

lemma Errors_AddError [simp]:
  "Errors (AddError r f m v) = Errors r @ [\<lparr>Field = f, Message = m, Value = v\<rparr>]"
  by (simp add: AddError_def)

lemma namespaceErrors_AddError:
  "namespaceErrors (AddError r f m v) =
     namespaceErrors r @ (if f = ''namespace'' then [\<lparr>Field = f, Message = m, Value = v\<rparr>] else [])"
  by (simp add: namespaceErrors_def)

lemma namespaceErrors_New: "namespaceErrors NewValidationResult = []"
  by (simp add: namespaceErrors_def NewValidationResult_def)

lemma namespaceErrors_basic:
  "(namespaceErrors (validateBasicFields c r) = []) =
     (namespaceErrors r = [] \<and> namespace_well_formed (Namespace c))"
  by (auto simp add: validateBasicFields_def Let_def namespaceErrors_AddError
      namespace_well_formed_def namespaceRegex_MatchString_def)

lemma namespaceErrors_numeric:
  "namespaceErrors (validateNumericRanges K c r) = namespaceErrors r"
  by (simp add: validateNumericRanges_def Let_def namespaceErrors_AddError)

lemma namespaceErrors_time:
  "namespaceErrors (validateTimeConfigs K c r) = namespaceErrors r"
  by (simp add: validateTimeConfigs_def Let_def namespaceErrors_AddError split: option.splits)

lemma namespaceErrors_dependencies:
  "namespaceErrors (validateDependencies c r) = namespaceErrors r"
  by (simp add: validateDependencies_def Let_def namespaceErrors_AddError split: option.splits)

lemma namespaceErrors_security:
  "(namespaceErrors (validateSecurityConfigs R c r) = []) =
     (namespaceErrors r = [] \<and>
      (Namespace c = [] \<or> sensitiveCheckDisabled R
       \<or> firstSensitive (sensitiveWords R) (ToLower R (Namespace c)) = None))"
  by (auto simp add: validateSecurityConfigs_def Let_def namespaceErrors_AddError
      split: option.splits)

lemma namespaceErrors_Validate:
  "(namespaceErrors (Validate R K (NewValidator (Some c))) = []) =
     (namespace_well_formed (Namespace c) \<and>
      (sensitiveCheckDisabled R
       \<or> firstSensitive (sensitiveWords R) (ToLower R (Namespace c)) = None))"
  by (auto simp add: Validate_def NewValidator_def validatePerformanceConfigs_def
      validateNetworkConfigs_def validateEnumValues_def namespaceErrors_security
      namespaceErrors_dependencies namespaceErrors_time namespaceErrors_numeric
      namespaceErrors_basic namespaceErrors_New namespace_well_formed_def)

lemma namespace_char_ascii: "is_namespace_char ch \<Longrightarrow> is_ascii ch"
  by (auto simp add: is_namespace_char_def is_ascii_def is_lower_letter_def
      is_upper_letter_def is_digit_def)

lemma ToLower_well_formed:
  "namespace_well_formed ns \<Longrightarrow> ToLower R ns = map ascii_lower ns"
  by (simp add: ToLower_def namespace_well_formed_def list_all_iff namespace_char_ascii)

text \<open>
  Claim C6, as amended. \<open>Validate\<close> records no error for the field \<open>namespace\<close> exactly when
  the namespace is non-empty, at most 64 bytes long and made of bytes of \<open>[a-zA-Z0-9_-]\<close>,
  and moreover the sensitive-word check is switched off by the environment or no non-empty
  word of the sensitive list occurs in the lower-cased namespace. Every namespace that
  breaks one of the three conditions gets a namespace error. Unless the environment
  overrides it, the sensitive list is admin, root, system, internal.
\<close>

theorem namespace_accepted_iff:
  "((namespaceErrors (Validate R K (NewValidator (Some c))) = []) \<longleftrightarrow>
      namespace_well_formed (Namespace c) \<and>
      (sensitiveCheckDisabled R
       \<or> firstSensitive (sensitiveWords R) (map ascii_lower (Namespace c)) = None))
   \<and> (\<not> namespace_well_formed (Namespace c) \<longrightarrow>
         namespaceErrors (Validate R K (NewValidator (Some c))) \<noteq> [])
   \<and> (getenv R ''POLARIS_NAMESPACE_SENSITIVE_WORDS'' = [] \<longrightarrow>
         sensitiveWords R = [''admin'', ''root'', ''system'', ''internal''])"
proof -
  have "(namespaceErrors (Validate R K (NewValidator (Some c))) = []) \<longleftrightarrow>
      namespace_well_formed (Namespace c) \<and>
      (sensitiveCheckDisabled R
       \<or> firstSensitive (sensitiveWords R) (map ascii_lower (Namespace c)) = None)"
    using ToLower_well_formed [of "Namespace c" R]
    by (auto simp add: namespaceErrors_Validate)
  then show ?thesis
    by (simp add: sensitiveWords_def defaultNamespaceSensitiveWords_def)
qed

lemma plain_getenv: "getenv plain_runtime k = []"
  by (simp add: plain_runtime_def)

theorem namespace_accepted_iff_witness:
  "namespace_well_formed ''test-namespace''
   \<and> namespaceErrors (Validate plain_runtime sample_constants (NewValidator (Some test_config))) = []
   \<and> \<not> namespace_well_formed ''my namespace''
   \<and> namespaceErrors (Validate plain_runtime sample_constants
         (NewValidator (Some (test_config\<lparr>Namespace := ''my namespace''\<rparr>)))) \<noteq> []
   \<and> sensitiveWords plain_runtime = [''admin'', ''root'', ''system'', ''internal'']"
proof -
  have wf: "namespace_well_formed ''test-namespace''"
    by code_simp
  have nwf: "\<not> namespace_well_formed ''my namespace''"
    by code_simp
  have words: "sensitiveWords plain_runtime = [''admin'', ''root'', ''system'', ''internal'']"
    using namespace_accepted_iff [where R = plain_runtime and K = sample_constants and c = test_config]
    by (simp add: plain_getenv)
  have none: "firstSensitive [''admin'', ''root'', ''system'', ''internal'']
      (map ascii_lower ''test-namespace'') = None"
    by code_simp
  have ns: "Namespace test_config = ''test-namespace''"
    by (simp add: test_config_def)
  show ?thesis
    using namespace_accepted_iff [where R = plain_runtime and K = sample_constants and c = test_config]
      namespace_accepted_iff [where R = plain_runtime and K = sample_constants
        and c = "test_config\<lparr>Namespace := ''my namespace''\<rparr>"]
      wf nwf none words ns
    by simp
qed

text \<open>
  The claim as written fails: the namespace \<open>admin\<close> meets the three conditions, and with
  no environment variable set \<open>Validate\<close> records a namespace error for it.
\<close>

theorem namespace_admin_rejected:
  "Namespace admin_config = ''admin''
   \<and> namespace_well_formed (Namespace admin_config)
   \<and> namespaceRegex_MatchString (Namespace admin_config)
   \<and> namespaceErrors (Validate plain_runtime sample_constants (NewValidator (Some admin_config)))
       = [\<lparr>Field = ''namespace'',
           Message = ''namespace should not contain sensitive word: admin'',
           Value = VString ''admin''\<rparr>]"
  by code_simp

subsection \<open>The token\<close>

lemma tokenErrors_AddError:
  "tokenErrors (AddError r f m v) =
     tokenErrors r @ (if f = ''token'' then [\<lparr>Field = f, Message = m, Value = v\<rparr>] else [])"
  by (simp add: tokenErrors_def)

lemma tokenErrors_New: "tokenErrors NewValidationResult = []"
  by (simp add: tokenErrors_def NewValidationResult_def)

lemma tokenErrors_basic:
  "(tokenErrors (validateBasicFields c r) = []) =
     (tokenErrors r = [] \<and> token_length_ok (Token c))"
  by (auto simp add: validateBasicFields_def Let_def tokenErrors_AddError token_length_ok_def)

lemma tokenErrors_numeric: "tokenErrors (validateNumericRanges K c r) = tokenErrors r"
  by (simp add: validateNumericRanges_def Let_def tokenErrors_AddError)

lemma tokenErrors_time: "tokenErrors (validateTimeConfigs K c r) = tokenErrors r"
  by (simp add: validateTimeConfigs_def Let_def tokenErrors_AddError split: option.splits)

lemma tokenErrors_dependencies: "tokenErrors (validateDependencies c r) = tokenErrors r"
  by (simp add: validateDependencies_def Let_def tokenErrors_AddError split: option.splits)

lemma tokenErrors_security:
  "(tokenErrors (validateSecurityConfigs R c r) = []) =
     (tokenErrors r = [] \<and>
      \<not> (Token c \<noteq> [] \<and> getenv R ''POLARIS_ENABLE_TOKEN_COMPLEXITY_CHECK'' = ''1''
           \<and> tokenLacksLetterOrDigit (Token c)))"
  by (auto simp add: validateSecurityConfigs_def Let_def tokenErrors_AddError
      split: option.splits)

lemma tokenErrors_Validate:
  "(tokenErrors (Validate R K (NewValidator (Some c))) = []) =
     (token_length_ok (Token c) \<and>
      \<not> (Token c \<noteq> [] \<and> getenv R ''POLARIS_ENABLE_TOKEN_COMPLEXITY_CHECK'' = ''1''
           \<and> tokenLacksLetterOrDigit (Token c)))"
  by (simp add: Validate_def NewValidator_def validatePerformanceConfigs_def
      validateNetworkConfigs_def validateEnumValues_def tokenErrors_security
      tokenErrors_dependencies tokenErrors_time tokenErrors_numeric
      tokenErrors_basic tokenErrors_New)

lemma redacted_AddError:
  "token_values_redacted r \<Longrightarrow> f \<noteq> ''token'' \<or> v = REDACTED \<Longrightarrow>
     token_values_redacted (AddError r f m v)"
  by (auto simp add: token_values_redacted_def tokenErrors_AddError)

lemma redacted_New: "token_values_redacted NewValidationResult"
  by (simp add: token_values_redacted_def tokenErrors_New)

lemma redacted_basic:
  "token_values_redacted r \<Longrightarrow> token_values_redacted (validateBasicFields c r)"
  by (simp add: validateBasicFields_def Let_def redacted_AddError)

lemma redacted_numeric:
  "token_values_redacted r \<Longrightarrow> token_values_redacted (validateNumericRanges K c r)"
  by (simp add: validateNumericRanges_def Let_def redacted_AddError)

lemma redacted_time:
  "token_values_redacted r \<Longrightarrow> token_values_redacted (validateTimeConfigs K c r)"
  by (simp add: validateTimeConfigs_def Let_def redacted_AddError split: option.splits)

lemma redacted_dependencies:
  "token_values_redacted r \<Longrightarrow> token_values_redacted (validateDependencies c r)"
  by (simp add: validateDependencies_def Let_def redacted_AddError split: option.splits)

lemma redacted_security:
  "token_values_redacted r \<Longrightarrow> token_values_redacted (validateSecurityConfigs R c r)"
  by (simp add: validateSecurityConfigs_def Let_def redacted_AddError split: option.splits)

lemma redacted_Validate: "token_values_redacted (Validate R K v)"
proof (cases "config v")
  case None
  then show ?thesis
    by (simp add: Validate_def redacted_AddError redacted_New)
next
  case (Some c)
  then show ?thesis
    by (simp add: Validate_def validatePerformanceConfigs_def validateNetworkConfigs_def
        validateEnumValues_def redacted_security redacted_dependencies redacted_time
        redacted_numeric redacted_basic redacted_New)
qed

text \<open>Validation depends on the token through its profile only.\<close>

lemma Validate_token_profile:
  assumes "token_profile t = token_profile (Token c)"
  shows "Validate R K (NewValidator (Some (c\<lparr>Token := t\<rparr>))) = Validate R K (NewValidator (Some c))"
proof -
  from assms have p: "(t = []) = (Token c = [])" "(1024 < length t) = (1024 < length (Token c))"
    "(length t < 8) = (length (Token c) < 8)"
    "tokenLacksLetterOrDigit t = tokenLacksLetterOrDigit (Token c)"
    by (simp_all add: token_profile_def)
  have b: "validateBasicFields (c\<lparr>Token := t\<rparr>) r = validateBasicFields c r" for r
    using p by (simp add: validateBasicFields_def)
  have n: "validateNumericRanges K (c\<lparr>Token := t\<rparr>) r = validateNumericRanges K c r" for r
    by (simp add: validateNumericRanges_def)
  have ti: "validateTimeConfigs K (c\<lparr>Token := t\<rparr>) r = validateTimeConfigs K c r" for r
    by (simp add: validateTimeConfigs_def split: option.splits)
  have d: "validateDependencies (c\<lparr>Token := t\<rparr>) r = validateDependencies c r" for r
    by (simp add: validateDependencies_def split: option.splits)
  have s: "validateSecurityConfigs R (c\<lparr>Token := t\<rparr>) r = validateSecurityConfigs R c r" for r
    using p by (simp add: validateSecurityConfigs_def split: option.splits)
  show ?thesis
    by (simp add: Validate_def NewValidator_def b n ti d s)
qed

text \<open>
  Claim C7, as amended. \<open>Validate\<close> records no error for the field \<open>token\<close> exactly when the
  token is empty or 8 to 1024 bytes long and, if the environment sets
  \<open>POLARIS_ENABLE_TOKEN_COMPLEXITY_CHECK=1\<close>, a non-empty token holds a letter and a digit.
  Every error about the token carries the value \<open>[REDACTED]\<close>, and the whole result of
  validation depends on the token only through four flags (empty, longer than 1024,
  shorter than 8, lacking a letter or a digit): no byte of the token reaches an error.
\<close>

theorem token_accepted_iff:
  "((tokenErrors (Validate R K (NewValidator (Some c))) = []) \<longleftrightarrow>
      token_length_ok (Token c) \<and>
      (Token c \<noteq> [] \<and> getenv R ''POLARIS_ENABLE_TOKEN_COMPLEXITY_CHECK'' = ''1''
         \<longrightarrow> \<not> tokenLacksLetterOrDigit (Token c)))
   \<and> (\<forall>e \<in> set (Errors (Validate R K v)). Field e = ''token'' \<longrightarrow> Value e = VString ''[REDACTED]'')
   \<and> (token_profile t = token_profile (Token c) \<longrightarrow>
        Validate R K (NewValidator (Some (c\<lparr>Token := t\<rparr>))) = Validate R K (NewValidator (Some c)))"
proof -
  have "\<forall>e \<in> set (Errors (Validate R K v)). Field e = ''token'' \<longrightarrow> Value e = VString ''[REDACTED]''"
    using redacted_Validate [of R K v]
    by (simp add: token_values_redacted_def tokenErrors_def list_all_iff REDACTED_def)
  then show ?thesis
    using Validate_token_profile [of t c R K]
    by (auto simp add: tokenErrors_Validate)
qed

theorem token_accepted_iff_witness:
  "token_length_ok ''test-token''
   \<and> tokenErrors (Validate plain_runtime sample_constants (NewValidator (Some test_config))) = []
   \<and> \<not> token_length_ok ''short''
   \<and> list_all (\<lambda>e. Field e = ''token'' \<and> Value e = VString ''[REDACTED]'')
        (Errors (Validate plain_runtime sample_constants
           (NewValidator (Some (test_config\<lparr>Token := ''short''\<rparr>)))))
   \<and> Errors (Validate plain_runtime sample_constants
           (NewValidator (Some (test_config\<lparr>Token := ''short''\<rparr>)))) \<noteq> []
   \<and> token_profile ''other-token'' = token_profile (Token test_config)
   \<and> Validate plain_runtime sample_constants (NewValidator (Some (test_config\<lparr>Token := ''other-token''\<rparr>)))
       = Validate plain_runtime sample_constants (NewValidator (Some test_config))"
proof -
  have ok: "token_length_ok ''test-token''" and nok: "\<not> token_length_ok ''short''"
    by (simp_all add: token_length_ok_def)
  have tk: "Token test_config = ''test-token''"
    by (simp add: test_config_def)
  have prof: "token_profile ''other-token'' = token_profile (Token test_config)"
    by code_simp
  have short: "Errors (Validate plain_runtime sample_constants
       (NewValidator (Some (test_config\<lparr>Token := ''short''\<rparr>))))
     = [\<lparr>Field = ''token'', Message = ''token must be at least 8 characters long'',
         Value = VString ''[REDACTED]''\<rparr>]"
    by code_simp
  show ?thesis
    using token_accepted_iff [where R = plain_runtime and K = sample_constants
        and c = test_config and t = "''other-token''"
        and v = "NewValidator (Some (test_config\<lparr>Token := ''short''\<rparr>))"]
      ok nok tk prof short
    by (simp add: plain_getenv)
qed

text \<open>
  The claim as written fails: with \<open>POLARIS_ENABLE_TOKEN_COMPLEXITY_CHECK=1\<close> the token
  \<open>abcdefgh\<close>, 8 bytes long, is rejected.
\<close>

theorem token_letters_only_rejected:
  "Token letters_only_config = ''abcdefgh''
   \<and> token_length_ok (Token letters_only_config)
   \<and> tokenErrors (Validate complexity_runtime sample_constants
        (NewValidator (Some letters_only_config)))
       = [\<lparr>Field = ''token'',
           Message = ''token must contain both letters and numbers (POLARIS_ENABLE_TOKEN_COMPLEXITY_CHECK=1)'',
           Value = VString ''[REDACTED]''\<rparr>]"
  by code_simp

section \<open>Properties of the plugin\<close>

subsection \<open>The shutdown timeout\<close>

text \<open>
  Claim C5. When the configuration holds a positive shutdown timeout,
  \<open>getShutdownTimeoutDuration\<close> returns it raised to \<open>MinShutdownTimeout\<close> and then lowered to
  \<open>MaxShutdownTimeout\<close>; with the minimum not above the maximum the result lies between
  the two and is the configured value when that lies between them. When the
  configuration is nil, the field is unset or the value is not positive, the result is
  \<open>DefaultShutdownTimeout\<close>.
\<close>

theorem getShutdownTimeoutDuration_clamped:
  "(conf p = Some c \<and> ShutdownTimeout c = Some t \<and> 0 < t \<longrightarrow>
      getShutdownTimeoutDuration K p = min (MaxShutdownTimeout K) (max (MinShutdownTimeout K) t))
   \<and> (conf p = Some c \<and> ShutdownTimeout c = Some t \<and> 0 < t
        \<and> MinShutdownTimeout K \<le> MaxShutdownTimeout K \<longrightarrow>
      MinShutdownTimeout K \<le> getShutdownTimeoutDuration K p
      \<and> getShutdownTimeoutDuration K p \<le> MaxShutdownTimeout K
      \<and> (MinShutdownTimeout K \<le> t \<and> t \<le> MaxShutdownTimeout K \<longrightarrow>
            getShutdownTimeoutDuration K p = t)
      \<and> (t < MinShutdownTimeout K \<longrightarrow> getShutdownTimeoutDuration K p = MinShutdownTimeout K)
      \<and> (MaxShutdownTimeout K < t \<longrightarrow> getShutdownTimeoutDuration K p = MaxShutdownTimeout K))
   \<and> (conf p = None
        \<or> (conf p = Some c \<and> ShutdownTimeout c = None)
        \<or> (conf p = Some c \<and> ShutdownTimeout c = Some t \<and> t \<le> 0) \<longrightarrow>
      getShutdownTimeoutDuration K p = DefaultShutdownTimeout K)"
  by (auto simp add: getShutdownTimeoutDuration_def Let_def)

theorem getShutdownTimeoutDuration_clamped_witness:
  "getShutdownTimeoutDuration sample_constants
      (running_plugin\<lparr>conf := Some (test_config\<lparr>ShutdownTimeout := Some 1000000000\<rparr>)\<rparr>)
     = 5000000000
   \<and> getShutdownTimeoutDuration sample_constants
      (running_plugin\<lparr>conf := Some (test_config\<lparr>ShutdownTimeout := Some 10000000000\<rparr>)\<rparr>)
     = 10000000000
   \<and> getShutdownTimeoutDuration sample_constants
      (running_plugin\<lparr>conf := Some (test_config\<lparr>ShutdownTimeout := Some 900000000000\<rparr>)\<rparr>)
     = 300000000000
   \<and> getShutdownTimeoutDuration sample_constants fresh_plugin = 30000000000
   \<and> getShutdownTimeoutDuration sample_constants running_plugin = 30000000000
   \<and> getShutdownTimeoutDuration sample_constants
      (running_plugin\<lparr>conf := Some (test_config\<lparr>ShutdownTimeout := Some (- 5)\<rparr>)\<rparr>)
     = 30000000000"
proof -
  have k: "MinShutdownTimeout sample_constants = 5000000000"
    "MaxShutdownTimeout sample_constants = 300000000000"
    "DefaultShutdownTimeout sample_constants = 30000000000"
    by (simp_all add: sample_constants_def)
  have f: "conf fresh_plugin = None"
    by (simp add: fresh_plugin_def)
  have r: "conf running_plugin = Some test_config" "ShutdownTimeout test_config = None"
    by (simp_all add: running_plugin_def test_config_def)
  note t = getShutdownTimeoutDuration_clamped [where K = sample_constants]
  show ?thesis
    using t [where p = "running_plugin\<lparr>conf := Some (test_config\<lparr>ShutdownTimeout := Some 1000000000\<rparr>)\<rparr>"
          and c = "test_config\<lparr>ShutdownTimeout := Some 1000000000\<rparr>" and t = 1000000000]
      t [where p = "running_plugin\<lparr>conf := Some (test_config\<lparr>ShutdownTimeout := Some 10000000000\<rparr>)\<rparr>"
          and c = "test_config\<lparr>ShutdownTimeout := Some 10000000000\<rparr>" and t = 10000000000]
      t [where p = "running_plugin\<lparr>conf := Some (test_config\<lparr>ShutdownTimeout := Some 900000000000\<rparr>)\<rparr>"
          and c = "test_config\<lparr>ShutdownTimeout := Some 900000000000\<rparr>" and t = 900000000000]
      t [where p = fresh_plugin and c = test_config and t = 0]
      t [where p = running_plugin and c = test_config and t = 0]
      t [where p = "running_plugin\<lparr>conf := Some (test_config\<lparr>ShutdownTimeout := Some (- 5)\<rparr>)\<rparr>"
          and c = "test_config\<lparr>ShutdownTimeout := Some (- 5)\<rparr>" and t = "- 5"]
      k f r
    by simp
qed

subsection \<open>A destroyed plugin\<close>

text \<open>
  Claim C8, as amended. With the destroyed flag set, the entry points of the sources
  test the flag before anything else and do no work: \<open>GetNamespace\<close> returns the string
  \<open>default\<close> whatever the configuration holds, and the two change handlers and the two
  watch-error handlers return at once, with no effect and the plugin unchanged.
\<close>

theorem destroyed_entry_points_do_nothing:
  "IsDestroyed p \<longrightarrow>
     GetNamespace p = ''default''
     \<and> reply_of_GetNamespace p = ReplyString ''default''
     \<and> handleServiceInstancesChanged R p serviceName instances = []
     \<and> handleConfigChanged R p fileName grp cfg = []
     \<and> handleServiceWatchError R p serviceName err = (p, [])
     \<and> handleConfigWatchError R p fileName grp err = (p, [])"
  by (simp add: GetNamespace_def reply_of_GetNamespace_def handleServiceInstancesChanged_def
      handleConfigChanged_def handleServiceWatchError_def handleServiceWatchError_with_def
      handleConfigWatchError_def handleConfigWatchError_with_def)

lemma destroyed_plugin_destroyed: "IsDestroyed destroyed_plugin"
  by (simp add: IsDestroyed_def destroyed_plugin_def)

theorem destroyed_entry_points_do_nothing_witness:
  "IsDestroyed destroyed_plugin
   \<and> conf destroyed_plugin = Some test_config
   \<and> Namespace test_config = ''test-namespace''
   \<and> GetNamespace destroyed_plugin = ''default''
   \<and> handleServiceInstancesChanged plain_runtime destroyed_plugin ''orders'' three_instances = []
   \<and> handleConfigChanged plain_runtime destroyed_plugin ''app.yaml'' ''default'' (Some sample_file) = []
   \<and> handleServiceWatchError plain_runtime destroyed_plugin ''orders'' ''stream closed''
       = (destroyed_plugin, [])
   \<and> handleConfigWatchError plain_runtime destroyed_plugin ''app.yaml'' ''default'' ''stream closed''
       = (destroyed_plugin, [])"
  using destroyed_entry_points_do_nothing [where p = destroyed_plugin and R = plain_runtime
      and serviceName = "''orders''" and instances = three_instances and fileName = "''app.yaml''"
      and grp = "''default''" and cfg = "Some sample_file" and err = "''stream closed''"]
    destroyed_plugin_destroyed
  by (simp add: destroyed_plugin_def running_plugin_def fresh_plugin_def test_config_def)

text \<open>
  The claim as written fails: on a destroyed plugin \<open>GetNamespace\<close> hands its caller the
  string \<open>default\<close>, not an error.
\<close>

theorem GetNamespace_destroyed_is_no_error:
  "IsDestroyed destroyed_plugin
   \<and> reply_of_GetNamespace destroyed_plugin = ReplyString ''default''
   \<and> \<not> is_error_reply (reply_of_GetNamespace destroyed_plugin)"
  by (simp add: IsDestroyed_def destroyed_plugin_def reply_of_GetNamespace_def GetNamespace_def)

subsection \<open>Change events, step by step\<close>













subsection \<open>One retry loop for a key\<close>

lemma goroutines_append: "goroutines (t @ u) = goroutines t @ goroutines u"
  by (simp add: goroutines_def)

lemma goroutines_Nil: "goroutines [] = []"
  by (simp add: goroutines_def)

lemma goroutines_Cons: "goroutines (e # t) = (if is_Go e then e # goroutines t else goroutines t)"
  by (simp add: goroutines_def)

lemma goroutines_withMetrics_Call: "goroutines (withMetrics p (Call n a)) = []"
  by (simp add: goroutines_def withMetrics_def)

lemma goroutines_serviceDegradation:
  "goroutines (handleServiceWatchDegradation R p serviceName err) = []"
  by (simp add: goroutines_def handleServiceWatchDegradation_def Let_def split: option.splits)

lemma goroutines_configDegradation:
  "goroutines (handleConfigWatchDegradation R p fileName grp err) = []"
  by (simp add: goroutines_def handleConfigWatchDegradation_def Let_def split: option.splits)

lemma serviceWatchError_goroutines:
  "goroutines (snd (handleServiceWatchError_with tryStart R p serviceName err)) =
     (if \<not> IsDestroyed p \<and> fst (tryStart p serviceName)
      then [Go ''p.retryServiceWatch'' [VString serviceName]] else [])"
proof (cases "tryStart p serviceName")
  case (Pair ok p')
  then show ?thesis
    by (cases ok)
      (simp_all add: handleServiceWatchError_with_def Let_def goroutines_append
        goroutines_Cons goroutines_Nil goroutines_withMetrics_Call goroutines_serviceDegradation)
qed

lemma configWatchError_goroutines:
  "goroutines (snd (handleConfigWatchError_with tryStart R p fileName grp err)) =
     (if \<not> IsDestroyed p \<and> fst (tryStart p (configKeyOf fileName grp))
      then [Go ''p.retryConfigWatch'' [VString fileName, VString grp]] else [])"
proof (cases "tryStart p (configKeyOf fileName grp)")
  case (Pair ok p')
  then show ?thesis
    by (cases ok)
      (simp_all add: handleConfigWatchError_with_def Let_def goroutines_append
        goroutines_Cons goroutines_Nil goroutines_withMetrics_Call goroutines_configDegradation)
qed

lemma started_goroutines: "started t (Go n a) = started (goroutines t) (Go n a)"
  by (induction t) (auto simp add: started_def goroutines_def)

lemma serviceWatchError_plugin:
  "fst (handleServiceWatchError_with tryStart R p serviceName err) =
     (if IsDestroyed p then p else snd (tryStart p serviceName))"
  by (cases "tryStart p serviceName")
    (auto simp add: handleServiceWatchError_with_def Let_def split: bool.splits)

lemma configWatchError_plugin:
  "fst (handleConfigWatchError_with tryStart R p fileName grp err) =
     (if IsDestroyed p then p else snd (tryStart p (configKeyOf fileName grp)))"
  by (cases "tryStart p (configKeyOf fileName grp)")
    (auto simp add: handleConfigWatchError_with_def Let_def split: bool.splits)

lemma watch_step_service:
  "watch_step R s (ServiceWatchError serviceName err) =
     (if IsDestroyed (plugin s) \<or> serviceName \<in> serviceRetryGuard (plugin s) then s
      else s\<lparr>plugin := (plugin s)\<lparr>serviceRetryGuard := insert serviceName (serviceRetryGuard (plugin s))\<rparr>,
             liveServiceRetries := (liveServiceRetries s)(serviceName := liveServiceRetries s serviceName + 1)\<rparr>)"
proof -
  obtain p' t where h: "handleServiceWatchError R (plugin s) serviceName err = (p', t)"
    by (cases "handleServiceWatchError R (plugin s) serviceName err")
  from h have p': "p' = fst (handleServiceWatchError_with tryStartServiceWatchRetry R (plugin s) serviceName err)"
    and t: "t = snd (handleServiceWatchError_with tryStartServiceWatchRetry R (plugin s) serviceName err)"
    by (simp_all add: handleServiceWatchError_def)
  have n: "started t (Go ''p.retryServiceWatch'' [VString serviceName]) =
      (if \<not> IsDestroyed (plugin s) \<and> serviceName \<notin> serviceRetryGuard (plugin s) then 1 else 0)"
  proof -
    have g: "goroutines t = (if \<not> IsDestroyed (plugin s) \<and> serviceName \<notin> serviceRetryGuard (plugin s)
        then [Go ''p.retryServiceWatch'' [VString serviceName]] else [])"
      by (simp add: t serviceWatchError_goroutines tryStartServiceWatchRetry_def)
    show ?thesis
      by (subst started_goroutines) (simp add: g started_def)
  qed
  have q: "p' = (if IsDestroyed (plugin s) \<or> serviceName \<in> serviceRetryGuard (plugin s) then plugin s
      else (plugin s)\<lparr>serviceRetryGuard := insert serviceName (serviceRetryGuard (plugin s))\<rparr>)"
    unfolding p' serviceWatchError_plugin by (simp add: tryStartServiceWatchRetry_def)
  show ?thesis
    using h n q by auto
qed

lemma watch_step_config:
  "watch_step R s (ConfigWatchError fileName grp err) =
     (if IsDestroyed (plugin s) \<or> configKeyOf fileName grp \<in> configRetryGuard (plugin s) then s
      else s\<lparr>plugin := (plugin s)\<lparr>configRetryGuard :=
                 insert (configKeyOf fileName grp) (configRetryGuard (plugin s))\<rparr>,
             liveConfigRetries := (liveConfigRetries s)
               (configKeyOf fileName grp := liveConfigRetries s (configKeyOf fileName grp) + 1)\<rparr>)"
proof -
  obtain p' t where h: "handleConfigWatchError R (plugin s) fileName grp err = (p', t)"
    by (cases "handleConfigWatchError R (plugin s) fileName grp err")
  from h have p': "p' = fst (handleConfigWatchError_with tryStartConfigWatchRetry R (plugin s) fileName grp err)"
    and t: "t = snd (handleConfigWatchError_with tryStartConfigWatchRetry R (plugin s) fileName grp err)"
    by (simp_all add: handleConfigWatchError_def)
  have n: "started t (Go ''p.retryConfigWatch'' [VString fileName, VString grp]) =
      (if \<not> IsDestroyed (plugin s) \<and> configKeyOf fileName grp \<notin> configRetryGuard (plugin s)
       then 1 else 0)"
  proof -
    have g: "goroutines t = (if \<not> IsDestroyed (plugin s) \<and> configKeyOf fileName grp \<notin> configRetryGuard (plugin s)
        then [Go ''p.retryConfigWatch'' [VString fileName, VString grp]] else [])"
      by (simp add: t configWatchError_goroutines tryStartConfigWatchRetry_def)
    show ?thesis
      by (subst started_goroutines) (simp add: g started_def)
  qed
  have q: "p' = (if IsDestroyed (plugin s) \<or> configKeyOf fileName grp \<in> configRetryGuard (plugin s)
      then plugin s
      else (plugin s)\<lparr>configRetryGuard := insert (configKeyOf fileName grp) (configRetryGuard (plugin s))\<rparr>)"
    unfolding p' configWatchError_plugin by (simp add: tryStartConfigWatchRetry_def)
  show ?thesis
    using h n q by auto
qed

lemma guard_invariant_step:
  assumes "guard_invariant s"
  shows "guard_invariant (watch_step R s ev)"
proof (cases ev)
  case (ServiceWatchError serviceName err)
  with assms show ?thesis
    unfolding ServiceWatchError watch_step_service
    by (auto simp add: guard_invariant_def)
next
  case (ConfigWatchError fileName grp err)
  with assms show ?thesis
    unfolding ConfigWatchError watch_step_config
    by (auto simp add: guard_invariant_def)
next
  case (ServiceRetryEnds serviceName)
  with assms show ?thesis
    by (auto simp add: guard_invariant_def endServiceWatchRetry_def)
next
  case (ConfigRetryEnds configKey)
  with assms show ?thesis
    by (auto simp add: guard_invariant_def endConfigWatchRetry_def)
qed

lemma guard_invariant_run:
  "guard_invariant s \<Longrightarrow> guard_invariant (watch_run R s evs)"
  unfolding watch_run_def
  by (induction evs arbitrary: s) (simp_all add: guard_invariant_step)

lemma guard_invariant_quiet: "guard_invariant (quiet_system p)"
  by (simp add: guard_invariant_def quiet_system_def)

lemma watch_run_snoc: "watch_run R s (evs @ [ev]) = watch_step R (watch_run R s evs) ev"
  by (simp add: watch_run_def)

text \<open>
  Claim C2. An error event starts a retry goroutine only when the guard operation of its
  key answers true, and then exactly one; this holds for the two handlers over any guard
  operation. With the compare-and-set guard of the spec, started from a plugin with no
  retry loop under way and after any sequence of error events and loop endings, every
  key of either family has at most one live retry loop; an error event for a key whose
  loop is live starts no goroutine and leaves that one loop live.
\<close>

theorem one_retry_loop_per_key:
  "goroutines (snd (handleServiceWatchError_with tryStart R p serviceName err)) =
     (if \<not> IsDestroyed p \<and> fst (tryStart p serviceName)
      then [Go ''p.retryServiceWatch'' [VString serviceName]] else [])
   \<and> goroutines (snd (handleConfigWatchError_with tryStart R p fileName grp err)) =
     (if \<not> IsDestroyed p \<and> fst (tryStart p (configKeyOf fileName grp))
      then [Go ''p.retryConfigWatch'' [VString fileName, VString grp]] else [])
   \<and> liveServiceRetries (watch_run R (quiet_system p) evs) k \<le> 1
   \<and> liveConfigRetries (watch_run R (quiet_system p) evs) k \<le> 1
   \<and> (liveServiceRetries (watch_run R (quiet_system p) evs) serviceName = 1 \<longrightarrow>
        goroutines (snd (handleServiceWatchError R
          (plugin (watch_run R (quiet_system p) evs)) serviceName err)) = []
        \<and> liveServiceRetries
            (watch_run R (quiet_system p) (evs @ [ServiceWatchError serviceName err])) serviceName = 1)
   \<and> (liveConfigRetries (watch_run R (quiet_system p) evs) (configKeyOf fileName grp) = 1 \<longrightarrow>
        goroutines (snd (handleConfigWatchError R
          (plugin (watch_run R (quiet_system p) evs)) fileName grp err)) = []
        \<and> liveConfigRetries
            (watch_run R (quiet_system p) (evs @ [ConfigWatchError fileName grp err]))
            (configKeyOf fileName grp) = 1)"
proof -
  let ?s = "watch_run R (quiet_system p) evs"
  have inv: "guard_invariant ?s"
    by (rule guard_invariant_run [OF guard_invariant_quiet])
  have eqs: "liveServiceRetries ?s x = (if x \<in> serviceRetryGuard (plugin ?s) then 1 else 0)"
    "liveConfigRetries ?s x = (if x \<in> configRetryGuard (plugin ?s) then 1 else 0)" for x
    using inv unfolding guard_invariant_def by blast+
  have bound: "liveServiceRetries ?s k \<le> 1" "liveConfigRetries ?s k \<le> 1"
    unfolding eqs by simp_all
  have service: "goroutines (snd (handleServiceWatchError R (plugin ?s) serviceName err)) = []
      \<and> liveServiceRetries (watch_run R (quiet_system p) (evs @ [ServiceWatchError serviceName err]))
          serviceName = 1"
    if live: "liveServiceRetries ?s serviceName = 1"
  proof -
    from live have up: "serviceName \<in> serviceRetryGuard (plugin ?s)"
      unfolding eqs by (simp split: if_splits)
    then have g: "goroutines (snd (handleServiceWatchError R (plugin ?s) serviceName err)) = []"
      by (simp add: handleServiceWatchError_def serviceWatchError_goroutines
          tryStartServiceWatchRetry_def)
    from up live have "liveServiceRetries
        (watch_run R (quiet_system p) (evs @ [ServiceWatchError serviceName err])) serviceName = 1"
      by (simp add: watch_run_snoc watch_step_service del: watch_step.simps)
    with g show ?thesis by simp
  qed
  have config: "goroutines (snd (handleConfigWatchError R (plugin ?s) fileName grp err)) = []
      \<and> liveConfigRetries (watch_run R (quiet_system p) (evs @ [ConfigWatchError fileName grp err]))
          (configKeyOf fileName grp) = 1"
    if live: "liveConfigRetries ?s (configKeyOf fileName grp) = 1"
  proof -
    from live have up: "configKeyOf fileName grp \<in> configRetryGuard (plugin ?s)"
      unfolding eqs by (simp split: if_splits)
    then have g: "goroutines (snd (handleConfigWatchError R (plugin ?s) fileName grp err)) = []"
      by (simp add: handleConfigWatchError_def configWatchError_goroutines
          tryStartConfigWatchRetry_def)
    from up live have "liveConfigRetries
        (watch_run R (quiet_system p) (evs @ [ConfigWatchError fileName grp err]))
        (configKeyOf fileName grp) = 1"
      by (simp add: watch_run_snoc watch_step_config del: watch_step.simps)
    with g show ?thesis by simp
  qed
  show ?thesis
    using bound service config
    by (simp add: serviceWatchError_goroutines configWatchError_goroutines)
qed

theorem one_retry_loop_per_key_witness:
  "goroutines (snd (handleServiceWatchError plain_runtime running_plugin ''orders'' ''stream closed''))
     = [Go ''p.retryServiceWatch'' [VString ''orders'']]
   \<and> liveServiceRetries
        (watch_run plain_runtime (quiet_system running_plugin)
           [ServiceWatchError ''orders'' ''stream closed'',
            ConfigWatchError ''app.yaml'' ''default'' ''stream closed'']) ''orders'' = 1
   \<and> liveConfigRetries
        (watch_run plain_runtime (quiet_system running_plugin)
           [ServiceWatchError ''orders'' ''stream closed'',
            ConfigWatchError ''app.yaml'' ''default'' ''stream closed'']) ''app.yaml:default'' = 1
   \<and> goroutines (snd (handleServiceWatchError plain_runtime
        (plugin (watch_run plain_runtime (quiet_system running_plugin)
           [ServiceWatchError ''orders'' ''stream closed'',
            ConfigWatchError ''app.yaml'' ''default'' ''stream closed'']))
        ''orders'' ''stream closed again'')) = []
   \<and> liveServiceRetries
        (watch_run plain_runtime (quiet_system running_plugin)
           ([ServiceWatchError ''orders'' ''stream closed'',
             ConfigWatchError ''app.yaml'' ''default'' ''stream closed'']
            @ [ServiceWatchError ''orders'' ''stream closed again''])) ''orders'' = 1
   \<and> goroutines (snd (handleConfigWatchError plain_runtime
        (plugin (watch_run plain_runtime (quiet_system running_plugin)
           [ServiceWatchError ''orders'' ''stream closed'',
            ConfigWatchError ''app.yaml'' ''default'' ''stream closed'']))
        ''app.yaml'' ''default'' ''stream closed again'')) = []"
proof -
  let ?evs = "[ServiceWatchError ''orders'' ''stream closed'',
            ConfigWatchError ''app.yaml'' ''default'' ''stream closed'']"
  have s: "liveServiceRetries (watch_run plain_runtime (quiet_system running_plugin) ?evs) ''orders'' = 1"
    by code_simp
  have c: "liveConfigRetries (watch_run plain_runtime (quiet_system running_plugin) ?evs)
      ''app.yaml:default'' = 1"
    by code_simp
  have k: "configKeyOf ''app.yaml'' ''default'' = ''app.yaml:default''"
    by (simp add: configKeyOf_def)
  have first: "\<not> IsDestroyed running_plugin"
    "fst (tryStartServiceWatchRetry running_plugin ''orders'')"
    by (simp_all add: IsDestroyed_def running_plugin_def fresh_plugin_def
        tryStartServiceWatchRetry_def)
  note t = one_retry_loop_per_key [where R = plain_runtime and p = running_plugin
      and serviceName = "''orders''" and fileName = "''app.yaml''" and grp = "''default''"]
  show ?thesis
    using t [where tryStart = tryStartServiceWatchRetry and err = "''stream closed''" and evs = "[]"]
      t [where evs = ?evs and err = "''stream closed again''"] s c k first
    by (simp add: handleServiceWatchError_def)
qed

subsection \<open>Shutdown happens once\<close>

lemma thenDo_ok: "\<not> panicked t \<Longrightarrow> thenDo (p, t) f = (fst (f p), t @ snd (f p))"
  by (simp add: thenDo_def split: prod.splits)

lemma thenDo_panicked: "panicked t \<Longrightarrow> thenDo (p, t) f = (p, t)"
  by (simp add: thenDo_def)

lemma thenDo_destroyed:
  assumes "\<And>q. destroyed (fst (f q)) = destroyed q"
  shows "destroyed (fst (thenDo r f)) = destroyed (fst r)"
proof (cases r)
  case (Pair p t)
  then show ?thesis
    using assms [of p] by (cases "panicked t") (simp_all add: thenDo_ok thenDo_panicked)
qed

lemma stopHealthCheck_destroyed: "destroyed (fst (stopHealthCheck q)) = destroyed q"
  by (simp add: stopHealthCheck_def)

lemma cleanupWatchers_destroyed: "destroyed (fst (cleanupWatchers q)) = destroyed q"
  by (simp add: cleanupWatchers_def Let_def)

lemma closeSDKConnection_destroyed: "destroyed (fst (closeSDKConnection R q)) = destroyed q"
  by (simp add: closeSDKConnection_def Let_def split: option.splits)

lemma destroyPolarisInstance_destroyed: "destroyed (fst (destroyPolarisInstance R q)) = destroyed q"
  by (simp add: destroyPolarisInstance_def Let_def split: option.splits)

lemma teardown_destroyed: "destroyed (fst (teardown R q)) = destroyed q"
  unfolding teardown_def
  by (simp add: thenDo_destroyed closeSDKConnection_destroyed destroyPolarisInstance_destroyed)

lemma timedTeardown_destroyed: "destroyed (fst (timedTeardown R B timeout q)) = destroyed q"
  using teardown_destroyed [of R q]
  by (auto simp add: timedTeardown_def split: prod.splits)

lemma stopBackgroundTasks_destroyed: "destroyed (fst (stopBackgroundTasks q)) = destroyed q"
  by (simp add: stopBackgroundTasks_def)

lemma unregisterMetrics_destroyed: "destroyed (fst (unregisterMetrics q)) = destroyed q"
  by (simp add: unregisterMetrics_def)

lemma releaseMemoryResources_destroyed: "destroyed (fst (releaseMemoryResources q)) = destroyed q"
  by (simp add: releaseMemoryResources_def)

lemmas keeps_destroyed = thenDo_destroyed stopHealthCheck_destroyed cleanupWatchers_destroyed
  timedTeardown_destroyed stopBackgroundTasks_destroyed unregisterMetrics_destroyed
  releaseMemoryResources_destroyed

lemma CleanupTasks_sets_destroyed:
  "IsInitialized p \<Longrightarrow> \<not> IsDestroyed p \<Longrightarrow> destroyed (after (CleanupTasks R K B p)) = 1"
  by (simp add: CleanupTasks_def Let_def keeps_destroyed setDestroyed_def)

text \<open>
  Claim C4. \<open>CleanupTasks\<close> on a plugin that is not initialized or already destroyed
  returns nil at once: no effect, the plugin unchanged. A first invocation on an
  initialized plugin that is not destroyed leaves the destroyed flag set, so every later
  invocation, whatever the environment and the backend, is such a no-op.
\<close>

theorem CleanupTasks_idempotent:
  "(\<not> IsInitialized p \<or> IsDestroyed p \<longrightarrow>
      CleanupTasks R K B p = \<lparr>after = p, effects = [], ending = Returns None, blocked_for = 0\<rparr>)
   \<and> (IsInitialized p \<and> \<not> IsDestroyed p \<longrightarrow>
        IsDestroyed (after (CleanupTasks R K B p))
        \<and> CleanupTasks R' K' B' (after (CleanupTasks R K B p)) =
            \<lparr>after = after (CleanupTasks R K B p), effects = [], ending = Returns None,
             blocked_for = 0\<rparr>)"
proof -
  have noop: "CleanupTasks R'' K'' B'' q = \<lparr>after = q, effects = [], ending = Returns None, blocked_for = 0\<rparr>"
    if "\<not> IsInitialized q \<or> IsDestroyed q" for R'' K'' B'' q
    using that by (auto simp add: CleanupTasks_def)
  have "IsDestroyed (after (CleanupTasks R K B p))" if "IsInitialized p" "\<not> IsDestroyed p"
    using CleanupTasks_sets_destroyed [OF that] by (simp add: IsDestroyed_def)
  with noop show ?thesis by blast
qed

theorem CleanupTasks_idempotent_witness:
  "\<not> IsInitialized fresh_plugin
   \<and> CleanupTasks plain_runtime sample_constants hanging_backend fresh_plugin =
       \<lparr>after = fresh_plugin, effects = [], ending = Returns None, blocked_for = 0\<rparr>
   \<and> IsDestroyed destroyed_plugin
   \<and> CleanupTasks plain_runtime sample_constants hanging_backend destroyed_plugin =
       \<lparr>after = destroyed_plugin, effects = [], ending = Returns None, blocked_for = 0\<rparr>
   \<and> IsInitialized running_plugin \<and> \<not> IsDestroyed running_plugin
   \<and> IsDestroyed (after (CleanupTasks plain_runtime sample_constants prompt_backend running_plugin))
   \<and> effects (CleanupTasks plain_runtime sample_constants prompt_backend running_plugin) \<noteq> []
   \<and> effects (CleanupTasks plain_runtime sample_constants prompt_backend
        (after (CleanupTasks plain_runtime sample_constants prompt_backend running_plugin))) = []"
proof -
  have f: "\<not> IsInitialized fresh_plugin"
    by (simp add: IsInitialized_def fresh_plugin_def)
  have d: "IsDestroyed destroyed_plugin"
    by (simp add: IsDestroyed_def destroyed_plugin_def)
  have r: "IsInitialized running_plugin" "\<not> IsDestroyed running_plugin"
    by (simp_all add: IsInitialized_def IsDestroyed_def running_plugin_def fresh_plugin_def)
  have e: "effects (CleanupTasks plain_runtime sample_constants prompt_backend running_plugin) \<noteq> []"
    by code_simp
  note t = CleanupTasks_idempotent [where R = plain_runtime and K = sample_constants
      and R' = plain_runtime and K' = sample_constants and B' = prompt_backend]
  show ?thesis
    using t [where p = fresh_plugin and B = hanging_backend]
      t [where p = destroyed_plugin and B = hanging_backend]
      t [where p = running_plugin and B = prompt_backend] f d r e
    by simp
qed

subsection \<open>Watchers first, then the timed teardown\<close>







































section \<open>Properties of the retry manager\<close>

lemma after_invocations_Suc:
  "after_invocations op (Suc n) s = after_invocations op n (snd (op s))"
  using funpow_swap1 [of "\<lambda>x. snd (op x)" n s] by (simp add: after_invocations_def)

lemma after_invocations_0: "after_invocations op 0 s = s"
  by (simp add: after_invocations_def)

lemma retryLoop_always_failing:
  assumes "\<forall>x. fst (op x) \<noteq> None"
  shows "retryLoop delay op n k s =
     (fst (op (after_invocations op n s)), after_invocations op (Suc n) s,
      Invoke # concat (map (\<lambda>i. [Sleep (delay i), Invoke]) [k..<k + n]))"
proof (induction n arbitrary: k s)
  case 0
  show ?case
    by (simp add: after_invocations_Suc after_invocations_0 split: prod.splits)
next
  case (Suc n)
  obtain err s' where o: "op s = (Some err, s')"
    using assms [rule_format, of s] by (cases "op s") auto
  have "[k..<k + Suc n] = k # [Suc k..<Suc k + n]"
    by (simp add: upt_conv_Cons)
  then show ?case
    using o Suc.IH [of "Suc k" s'] by (simp add: after_invocations_Suc)
qed

lemma invocations_schedule:
  "invocations (Invoke # concat (map (\<lambda>i. [Sleep (delay i), Invoke]) xs)) = Suc (length xs)"
  by (induction xs) (simp_all add: invocations_def)

lemma retryLoop_first_success:
  "fst (op s) = None \<Longrightarrow> retryLoop delay op n k s = (None, snd (op s), [Invoke])"
  by (cases n; cases "op s") auto

lemma retryLoop_starts_with_Invoke:
  "snd (snd (retryLoop delay op n k s)) \<noteq> [] \<and> hd (snd (snd (retryLoop delay op n k s))) = Invoke"
  by (cases n) (auto split: prod.splits option.splits)

text \<open>
  Claim C9. With \<open>maxAttempts = n\<close>, \<open>DoWithRetry\<close> on an operation that fails every time
  invokes it exactly \<open>n + 1\<close> times, with one backoff delay between two invocations, and
  returns the error of the last invocation. On an operation that succeeds at once it
  invokes it exactly once and returns nil. With \<open>n = 0\<close> there is exactly one invocation,
  and in every case the first effect is an invocation: no delay comes before it.
\<close>

theorem DoWithRetry_attempts:
  "((\<forall>x. fst (op x) \<noteq> None) \<longrightarrow>
      invocations (snd (snd (DoWithRetry rm op s))) = maxAttempts rm + 1
      \<and> fst (DoWithRetry rm op s) = fst (op (after_invocations op (maxAttempts rm) s))
      \<and> fst (DoWithRetry rm op s) \<noteq> None
      \<and> fst (snd (DoWithRetry rm op s)) = after_invocations op (maxAttempts rm + 1) s
      \<and> snd (snd (DoWithRetry rm op s)) =
           Invoke # concat (map (\<lambda>i. [Sleep (backoff rm i), Invoke]) [0..<maxAttempts rm]))
   \<and> (fst (op s) = None \<longrightarrow> DoWithRetry rm op s = (None, snd (op s), [Invoke]))
   \<and> (maxAttempts rm = 0 \<longrightarrow> DoWithRetry rm op s = (fst (op s), snd (op s), [Invoke]))
   \<and> hd (snd (snd (DoWithRetry rm op s))) = Invoke"
proof -
  have failing: "invocations (snd (snd (DoWithRetry rm op s))) = maxAttempts rm + 1
      \<and> fst (DoWithRetry rm op s) = fst (op (after_invocations op (maxAttempts rm) s))
      \<and> fst (DoWithRetry rm op s) \<noteq> None
      \<and> fst (snd (DoWithRetry rm op s)) = after_invocations op (maxAttempts rm + 1) s
      \<and> snd (snd (DoWithRetry rm op s)) =
           Invoke # concat (map (\<lambda>i. [Sleep (backoff rm i), Invoke]) [0..<maxAttempts rm])"
    if f: "\<forall>x. fst (op x) \<noteq> None"
    using retryLoop_always_failing [OF f, of "backoff rm" "maxAttempts rm" 0 s] f
    by (simp add: DoWithRetry_def invocations_schedule)
  have success: "DoWithRetry rm op s = (None, snd (op s), [Invoke])" if "fst (op s) = None"
    using that by (simp add: DoWithRetry_def retryLoop_first_success)
  have once: "DoWithRetry rm op s = (fst (op s), snd (op s), [Invoke])" if "maxAttempts rm = 0"
    using that by (simp add: DoWithRetry_def split: prod.splits)
  have "hd (snd (snd (DoWithRetry rm op s))) = Invoke"
    by (simp add: DoWithRetry_def retryLoop_starts_with_Invoke)
  with failing success once show ?thesis by blast
qed

theorem DoWithRetry_attempts_witness:
  "DoWithRetry (NewRetryManager 3 1000000) countingFailure 0
     = (Some ''assert.AnError general error for testing'', 4,
        [Invoke, Sleep 1000000, Invoke, Sleep 1000000, Invoke, Sleep 1000000, Invoke])
   \<and> invocations (snd (snd (DoWithRetry (NewRetryManager 3 1000000) countingFailure 0))) = 4
   \<and> DoWithRetry (NewRetryManager 3 1000000) countingSuccess 0 = (None, 1, [Invoke])
   \<and> DoWithRetry (NewRetryManager 0 1000000) countingFailure 0
       = (Some ''assert.AnError general error for testing'', 1, [Invoke])"
proof -
  have f: "\<forall>x. fst (countingFailure x) \<noteq> None"
    by (simp add: countingFailure_def)
  have s: "fst (countingSuccess 0) = None" "snd (countingSuccess 0) = 1"
    by (simp_all add: countingSuccess_def)
  have m: "maxAttempts (NewRetryManager 3 1000000) = 3" "maxAttempts (NewRetryManager 0 1000000) = 0"
    "backoff (NewRetryManager 3 1000000) = (\<lambda>k. 1000000)"
    by (simp_all add: NewRetryManager_def)
  have a: "after_invocations countingFailure 3 0 = 3" "after_invocations countingFailure 4 0 = 4"
    by (simp_all add: after_invocations_def countingFailure_def numeral_3_eq_3 eval_nat_numeral)
  have r: "fst (countingFailure 3) = Some ''assert.AnError general error for testing''"
    "fst (countingFailure 0) = Some ''assert.AnError general error for testing''"
    "snd (countingFailure 0) = 1"
    by (simp_all add: countingFailure_def)
  have u: "[0..<3] = [0, 1, 2]"
    by (simp add: upt_rec)
  have A: "DoWithRetry (NewRetryManager 3 1000000) countingFailure 0
     = (Some ''assert.AnError general error for testing'', 4,
        [Invoke, Sleep 1000000, Invoke, Sleep 1000000, Invoke, Sleep 1000000, Invoke])"
    using DoWithRetry_attempts [where rm = "NewRetryManager 3 1000000" and op = countingFailure
        and s = 0] f m a r u
    by (simp add: prod_eq_iff)
  have B: "DoWithRetry (NewRetryManager 3 1000000) countingSuccess 0 = (None, 1, [Invoke])"
    using DoWithRetry_attempts [where rm = "NewRetryManager 3 1000000" and op = countingSuccess
        and s = 0] s
    by simp
  have C: "DoWithRetry (NewRetryManager 0 1000000) countingFailure 0
       = (Some ''assert.AnError general error for testing'', 1, [Invoke])"
    using DoWithRetry_attempts [where rm = "NewRetryManager 0 1000000" and op = countingFailure
        and s = 0] m r
    by simp
  show ?thesis
    by (simp add: A B C invocations_def)
qed

end
